theory Spec2Isabelle
  imports Complex_Main
begin

text \<open>
  The scheduling and ledger engine of the finance tracker: the due check and the next
  date of recurring income and expense sources (models/Income, models/Expense,
  utils/cronJobs), the two cron jobs that walk the sources, and the route handlers that
  create transactions and spontaneous sources and soft-delete transactions.

  The database is a value that every operation takes and returns; operations run one
  after the other, as the awaits of one handler or one cron run do. An exception is a
  value of type \<open>error\<close>. A JavaScript number that holds an amount is a real number. The
  clock is read once for each handler call and each cron run. Strings are byte lists and
  white space is ASCII white space.
\<close>

section \<open>Calendar dates\<close>

text \<open>
  A JavaScript \<^verbatim>\<open>Date\<close> that the code reads through its local-time getters
  (\<^verbatim>\<open>getFullYear\<close>, \<^verbatim>\<open>getMonth\<close>, \<^verbatim>\<open>getDate\<close>) is given by its civil
  fields. A \<^verbatim>\<open>Date\<close> that the code builds with \<^verbatim>\<open>new Date(y, m, d)\<close>, stores or
  compares with \<^verbatim>\<open><=\<close> is its time value in milliseconds, computed as ECMAScript's
  MakeDay and MakeDate do (local time is one linear timeline: no daylight-saving shift).
\<close>

record jsdate =
  getFullYear :: int
  getMonth :: int
  getDate :: int
  msOfDay :: int

definition msPerDay :: int where
  "msPerDay = 86400000"

definition DaysInYear :: "int \<Rightarrow> int" where
  "DaysInYear y =
     (if y mod 4 \<noteq> 0 then 365
      else if y mod 100 \<noteq> 0 then 366
      else if y mod 400 \<noteq> 0 then 365
      else 366)"

definition DayFromYear :: "int \<Rightarrow> int" where
  "DayFromYear y =
     365 * (y - 1970) + (y - 1969) div 4 - (y - 1901) div 100 + (y - 1601) div 400"

definition InLeapYear :: "int \<Rightarrow> int" where
  "InLeapYear y = (if DaysInYear y = 365 then 0 else 1)"

text \<open>Day within the year on which month \<open>m\<close> (0 = January) starts; 12 is the year's end.\<close>

definition monthStart :: "int \<Rightarrow> int \<Rightarrow> int" where
  "monthStart leap m =
     (if m = 0 then 0
      else if m = 1 then 31
      else if m = 2 then 59 + leap
      else if m = 3 then 90 + leap
      else if m = 4 then 120 + leap
      else if m = 5 then 151 + leap
      else if m = 6 then 181 + leap
      else if m = 7 then 212 + leap
      else if m = 8 then 243 + leap
      else if m = 9 then 273 + leap
      else if m = 10 then 304 + leap
      else if m = 11 then 334 + leap
      else 365 + leap)"

definition daysInMonth :: "int \<Rightarrow> int \<Rightarrow> int" where
  "daysInMonth y m = monthStart (InLeapYear y) (m + 1) - monthStart (InLeapYear y) m"

text \<open>MakeDay: a month outside 0..11 carries into the year, a day outside the month
  carries into the following (or preceding) months.\<close>

definition MakeDay :: "int \<Rightarrow> int \<Rightarrow> int \<Rightarrow> int" where
  "MakeDay y m d =
     (let ym = y + m div 12; mn = m mod 12
      in DayFromYear ym + monthStart (InLeapYear ym) mn + d - 1)"

text \<open>\<^verbatim>\<open>new Date(y, m, d)\<close>: local midnight; a year 0..99 means 1900 + year.\<close>

definition new_Date :: "int \<Rightarrow> int \<Rightarrow> int \<Rightarrow> int" where
  "new_Date y m d =
     (let yr = (if 0 \<le> y \<and> y \<le> 99 then 1900 + y else y)
      in MakeDay yr m d * msPerDay)"

text \<open>The time value of a date given by its civil fields.\<close>

definition getTime :: "jsdate \<Rightarrow> int" where
  "getTime t = MakeDay (getFullYear t) (getMonth t) (getDate t) * msPerDay + msOfDay t"

text \<open>\<^verbatim>\<open>today.setHours(0, 0, 0, 0)\<close>\<close>

definition setHours0 :: "jsdate \<Rightarrow> jsdate" where
  "setHours0 t = t\<lparr>msOfDay := 0\<rparr>"

text \<open>A reading of the wall clock: a real calendar day, from the epoch year to the last
  year that a \<^verbatim>\<open>Date\<close> can hold.\<close>

definition valid_date :: "jsdate \<Rightarrow> bool" where
  "valid_date t \<longleftrightarrow>
     1970 \<le> getFullYear t \<and> getFullYear t \<le> 275760 \<and> 0 \<le> getMonth t \<and> getMonth t \<le> 11 \<and>
     1 \<le> getDate t \<and> getDate t \<le> daysInMonth (getFullYear t) (getMonth t) \<and>
     0 \<le> msOfDay t \<and> msOfDay t < msPerDay"

section \<open>Income and expense sources\<close>

datatype cycle_type = Monthly | Quarterly | Yearly

text \<open>models/Income: \<^verbatim>\<open>cycleDate\<close> and \<^verbatim>\<open>cycleType\<close> are required paths. The
  timestamps of the income and expense schemas are left out of the two records.\<close>

record income =
  income_id :: nat
  income_userId :: nat
  income_walletId :: nat
  income_name :: string
  income_description :: "string option"
  income_amount :: real
  income_cycleDate :: int
  income_cycleType :: cycle_type
  income_relaxationDate :: "int option"
  income_isDeleted :: bool
  income_deletedAt :: "int option"

text \<open>models/Expense: the cycle is required only of a fixed expense, the entry date only
  of a spontaneous one.\<close>

record expense =
  expense_id :: nat
  expense_userId :: nat
  expense_walletId :: nat
  expense_name :: string
  expense_description :: "string option"
  expense_amount :: real
  isFixedExpense :: bool
  expense_cycleDate :: "int option"
  expense_cycleType :: "cycle_type option"
  expense_entryDate :: "int option"
  expense_relaxationDate :: "int option"
  expense_isDeleted :: bool
  expense_deletedAt :: "int option"

subsection \<open>Cycle calculator\<close>

definition validMonths :: "int list" where
  "validMonths = [0, 3, 6, 9]"

definition shouldProcessIncome :: "income \<Rightarrow> jsdate \<Rightarrow> bool" where
  "shouldProcessIncome inc today =
     (let dayOfMonth = getDate today
      in if income_cycleDate inc \<noteq> dayOfMonth then False
         else if income_cycleType inc = Quarterly then getMonth today \<in> set validMonths
         else if income_cycleType inc = Yearly then
           (case income_relaxationDate inc of
              None \<Rightarrow> True
            | Some r \<Rightarrow> r \<le> getTime today)
         else True)"

definition shouldProcessExpense :: "expense \<Rightarrow> jsdate \<Rightarrow> bool" where
  "shouldProcessExpense ex today =
     (let dayOfMonth = getDate today
      in if expense_cycleDate ex \<noteq> Some dayOfMonth then False
         else if expense_cycleType ex = Some Quarterly then getMonth today \<in> set validMonths
         else if expense_cycleType ex = Some Yearly then
           (case expense_relaxationDate ex of
              None \<Rightarrow> True
            | Some r \<Rightarrow> r \<le> getTime today)
         else True)"

text \<open>The date that \<^verbatim>\<open>updateRelaxationDate\<close> computes at the clock reading \<open>now\<close>,
  before it is stored.\<close>

definition income_nextDate :: "income \<Rightarrow> jsdate \<Rightarrow> int" where
  "income_nextDate inc now =
     (let nextDate = new_Date (getFullYear now) (getMonth now) (income_cycleDate inc)
      in case income_cycleType inc of
           Monthly \<Rightarrow>
             (if nextDate \<le> getTime now
              then new_Date (getFullYear now) (getMonth now + 1) (income_cycleDate inc)
              else nextDate)
         | Quarterly \<Rightarrow>
             (let quarter = getMonth now div 3;
                  nextDate = new_Date (getFullYear now) (quarter * 3) (income_cycleDate inc)
              in if nextDate \<le> getTime now
                 then new_Date (getFullYear now) ((quarter + 1) * 3) (income_cycleDate inc)
                 else nextDate)
         | Yearly \<Rightarrow>
             (let nextDate = new_Date (getFullYear now) 0 (income_cycleDate inc)
              in if nextDate \<le> getTime now
                 then new_Date (getFullYear now + 1) 0 (income_cycleDate inc)
                 else nextDate))"

definition income_updateRelaxationDate :: "income \<Rightarrow> jsdate \<Rightarrow> income" where
  "income_updateRelaxationDate inc now =
     inc\<lparr>income_relaxationDate := Some (income_nextDate inc now)\<rparr>"


text \<open>Errors thrown by the runtime and by Mongoose.\<close>

datatype error = TypeError | ValidationError | CastError | DocumentNotFoundError

text \<open>For an expense the cycle is optional. With \<^verbatim>\<open>cycleDate\<close> undefined,
  \<^verbatim>\<open>new Date(y, m, undefined)\<close> is an Invalid Date (\<open>None\<close>), every comparison with it is
  false, and saving it is rejected. With \<^verbatim>\<open>cycleType\<close> undefined no \<^verbatim>\<open>case\<close> of the
  \<^verbatim>\<open>switch\<close> applies.\<close>

definition expense_nextDate :: "expense \<Rightarrow> jsdate \<Rightarrow> int option" where
  "expense_nextDate ex now =
     (case expense_cycleDate ex of
        None \<Rightarrow> None
      | Some cycleDate \<Rightarrow>
          (let nextDate = new_Date (getFullYear now) (getMonth now) cycleDate
           in case expense_cycleType ex of
                Some Monthly \<Rightarrow>
                  Some (if nextDate \<le> getTime now
                        then new_Date (getFullYear now) (getMonth now + 1) cycleDate
                        else nextDate)
              | Some Quarterly \<Rightarrow>
                  (let quarter = getMonth now div 3;
                       nextDate = new_Date (getFullYear now) (quarter * 3) cycleDate
                   in Some (if nextDate \<le> getTime now
                            then new_Date (getFullYear now) ((quarter + 1) * 3) cycleDate
                            else nextDate))
              | Some Yearly \<Rightarrow>
                  (let nextDate = new_Date (getFullYear now) 0 cycleDate
                   in Some (if nextDate \<le> getTime now
                            then new_Date (getFullYear now + 1) 0 cycleDate
                            else nextDate))
              | None \<Rightarrow> Some nextDate))"

definition expense_updateRelaxationDate :: "expense \<Rightarrow> jsdate \<Rightarrow> error + expense" where
  "expense_updateRelaxationDate ex now =
     (case expense_nextDate ex now of
        None \<Rightarrow> Inl CastError
      | Some nextDate \<Rightarrow> Inr (ex\<lparr>expense_relaxationDate := Some nextDate\<rparr>))"

section \<open>Documents and collections\<close>

datatype transaction_type = IncomeType | ExpenseType

text \<open>models/Transaction. The schema has \<^verbatim>\<open>timestamps: true\<close>: Mongoose sets
  \<^verbatim>\<open>createdAt\<close> and \<^verbatim>\<open>updatedAt\<close> when it creates the document and sets
  \<^verbatim>\<open>updatedAt\<close> again whenever it saves a change of it.\<close>

record transaction =
  transaction_id :: nat
  tx_walletId :: nat
  tx_userId :: nat
  tx_title :: string
  tx_description :: "string option"
  tx_file :: "string option"
  transactionDate :: int
  tx_amount :: real
  transactionType :: transaction_type
  tx_isDeleted :: bool
  tx_deletedAt :: "int option"
  tx_createdAt :: int
  tx_updatedAt :: int

text \<open>models/UserWallet: the balance is the schema path \<^verbatim>\<open>currentAmount\<close>. The record
  keeps the paths that the engine reads or writes; the wallet's name, image, notification
  paths and timestamps are left out.\<close>

record userWallet =
  wallet_userId :: nat
  initialAmount :: real
  currentAmount :: real
  wallet_isDeleted :: bool

text \<open>The database. Mongoose generates a fresh \<^verbatim>\<open>_id\<close> for every created document;
  \<open>nextId\<close> is the next one.\<close>

record db =
  wallets :: "nat \<rightharpoonup> userWallet"
  users :: "nat set"
  transactions :: "transaction list"
  incomes :: "income list"
  expenses :: "expense list"
  nextId :: nat

subsection \<open>Strings\<close>

text \<open>White space is the ASCII part of what \<^verbatim>\<open>trim\<close> removes; a string is a list of
  bytes, in which the other Unicode spaces have no single character.\<close>

definition isSpace :: "char \<Rightarrow> bool" where
  "isSpace c \<longleftrightarrow> c \<in> set [CHR '' '', CHR 0x09, CHR 0x0A, CHR 0x0B, CHR 0x0C, CHR 0x0D]"

definition trim :: "string \<Rightarrow> string" where
  "trim s = rev (dropWhile isSpace (rev (dropWhile isSpace s)))"

definition toLowerCase :: "string \<Rightarrow> string" where
  "toLowerCase s =
     map (\<lambda>c. let n = (of_char c :: nat)
               in if 65 \<le> n \<and> n \<le> 90 then char_of (n + 32) else c) s"

text \<open>\<^verbatim>\<open>v.substring(v.lastIndexOf("."))\<close>: from the last dot on; the whole string when
  there is none (\<^verbatim>\<open>substring(-1)\<close> starts at 0).\<close>

fun fromLastDot :: "string \<Rightarrow> string" where
  "fromLastDot [] = []"
| "fromLastDot (c # cs) =
     (if CHR ''.'' \<in> set cs then fromLastDot cs else c # cs)"

fun show_nat :: "nat \<Rightarrow> string" where
  "show_nat n =
     (if n < 10 then [''0123456789'' ! n]
      else show_nat (n div 10) @ [''0123456789'' ! (n mod 10)])"

declare show_nat.simps [simp del]

definition monthNames :: "string list" where
  "monthNames = [''January'', ''February'', ''March'', ''April'', ''May'', ''June'',
     ''July'', ''August'', ''September'', ''October'', ''November'', ''December'']"

text \<open>\<^verbatim>\<open>date.toLocaleDateString("en-US", {day: "numeric", month: "long", year: "numeric"})\<close>\<close>

definition formatDate :: "jsdate \<Rightarrow> string" where
  "formatDate d =
     monthNames ! nat (getMonth d) @ '' '' @ show_nat (nat (getDate d)) @ '', '' @
     show_nat (nat (getFullYear d))"

subsection \<open>Mongoose operations\<close>

record transactionData =
  td_walletId :: nat
  td_userId :: nat
  td_title :: string
  td_description :: "string option"
  td_file :: "string option"
  td_amount :: real
  td_transactionType :: transaction_type
  td_transactionDate :: int

definition allowedExtensions :: "string list" where
  "allowedExtensions = [''.pdf'', ''.jpg'', ''.jpeg'', ''.png'']"

definition file_validator :: "string option \<Rightarrow> bool" where
  "file_validator v =
     (case v of
        None \<Rightarrow> True
      | Some f \<Rightarrow> f = [] \<or> fromLastDot (toLowerCase f) \<in> set allowedExtensions)"

text \<open>\<^verbatim>\<open>Transaction.create\<close>: Mongoose builds the document (the schema trims the
  strings and supplies the defaults and the two timestamps), validates it (title required and at most 200
  characters, description at most 500, the file's extension, amount at least 0) and
  stores a valid document under a fresh id.\<close>

definition Transaction_doc :: "transactionData \<Rightarrow> nat \<Rightarrow> jsdate \<Rightarrow> transaction" where
  "Transaction_doc td i now =
     \<lparr>transaction_id = i,
      tx_walletId = td_walletId td,
      tx_userId = td_userId td,
      tx_title = trim (td_title td),
      tx_description = map_option trim (td_description td),
      tx_file = td_file td,
      transactionDate = td_transactionDate td,
      tx_amount = td_amount td,
      transactionType = td_transactionType td,
      tx_isDeleted = False,
      tx_deletedAt = None,
      tx_createdAt = getTime now,
      tx_updatedAt = getTime now\<rparr>"

definition Transaction_validate :: "transaction \<Rightarrow> bool" where
  "Transaction_validate t \<longleftrightarrow>
     tx_title t \<noteq> [] \<and> length (tx_title t) \<le> 200 \<and>
     (case tx_description t of None \<Rightarrow> True | Some d \<Rightarrow> length d \<le> 500) \<and>
     file_validator (tx_file t) \<and> 0 \<le> tx_amount t"

definition Transaction_create ::
  "transactionData \<Rightarrow> jsdate \<Rightarrow> db \<Rightarrow> error + (transaction \<times> db)" where
  "Transaction_create td now s =
     (let t = Transaction_doc td (nextId s) now
      in if \<not> Transaction_validate t then Inl ValidationError
         else Inr (t, s\<lparr>transactions := transactions s @ [t], nextId := nextId s + 1\<rparr>))"

definition Transaction_findByIdAndDelete :: "nat \<Rightarrow> db \<Rightarrow> db" where
  "Transaction_findByIdAndDelete i s =
     s\<lparr>transactions := filter (\<lambda>t. transaction_id t \<noteq> i) (transactions s)\<rparr>"

text \<open>\<^verbatim>\<open>UserWallet.findByIdAndUpdate(id, {$inc: {currentAmount: delta}})\<close>: nothing
  happens when no wallet has the id.\<close>

definition UserWallet_inc :: "nat \<Rightarrow> real \<Rightarrow> db \<Rightarrow> db" where
  "UserWallet_inc i delta s =
     (case wallets s i of
        None \<Rightarrow> s
      | Some w \<Rightarrow> s\<lparr>wallets := (wallets s)(i \<mapsto> w\<lparr>currentAmount := currentAmount w + delta\<rparr>)\<rparr>)"

text \<open>\<^verbatim>\<open>this.save()\<close> after \<^verbatim>\<open>updateRelaxationDate\<close>: the modified path
  \<^verbatim>\<open>relaxationDate\<close> is written to the stored document of the same id; there must be
  one.\<close>

definition Income_save :: "income \<Rightarrow> db \<Rightarrow> error + db" where
  "Income_save inc s =
     (if income_id inc \<in> income_id ` set (incomes s)
      then Inr (s\<lparr>incomes :=
             map (\<lambda>d. if income_id d = income_id inc
                       then d\<lparr>income_relaxationDate := income_relaxationDate inc\<rparr> else d)
               (incomes s)\<rparr>)
      else Inl DocumentNotFoundError)"

definition Expense_save :: "expense \<Rightarrow> db \<Rightarrow> error + db" where
  "Expense_save ex s =
     (if expense_id ex \<in> expense_id ` set (expenses s)
      then Inr (s\<lparr>expenses :=
             map (\<lambda>d. if expense_id d = expense_id ex
                       then d\<lparr>expense_relaxationDate := expense_relaxationDate ex\<rparr> else d)
               (expenses s)\<rparr>)
      else Inl DocumentNotFoundError)"

text \<open>\<^verbatim>\<open>.populate("walletId userId")\<close> replaces each reference by the referenced
  document, or by null when there is none; the code reads only \<^verbatim>\<open>._id\<close> of it.\<close>

record populated_income =
  pi_doc :: income
  pi_walletId :: "nat option"
  pi_userId :: "nat option"

record populated_expense =
  pe_doc :: expense
  pe_walletId :: "nat option"
  pe_userId :: "nat option"

definition populate_income :: "db \<Rightarrow> income \<Rightarrow> populated_income" where
  "populate_income s inc =
     \<lparr>pi_doc = inc,
      pi_walletId = (if income_walletId inc \<in> dom (wallets s) then Some (income_walletId inc) else None),
      pi_userId = (if income_userId inc \<in> users s then Some (income_userId inc) else None)\<rparr>"

definition populate_expense :: "db \<Rightarrow> expense \<Rightarrow> populated_expense" where
  "populate_expense s ex =
     \<lparr>pe_doc = ex,
      pe_walletId = (if expense_walletId ex \<in> dom (wallets s) then Some (expense_walletId ex) else None),
      pe_userId = (if expense_userId ex \<in> users s then Some (expense_userId ex) else None)\<rparr>"

section \<open>Source processor\<close>

text \<open>\<^verbatim>\<open>x || null\<close> on an optional string: the empty string is falsy.\<close>

definition orNull :: "string option \<Rightarrow> string option" where
  "orNull x = (case x of None \<Rightarrow> None | Some d \<Rightarrow> if d = [] then None else Some d)"

text \<open>
  \<^verbatim>\<open>processIncomeSource\<close> and \<^verbatim>\<open>processExpenseSource\<close> of utils/cronJobs. The clock
  is read once, as \<open>now\<close>. An exception is the left summand; the database that the code
  has reached when it throws is returned with it. Reading \<^verbatim>\<open>._id\<close> of a reference that
  populate left null is a TypeError.
\<close>

definition processIncomeSource ::
  "populated_income \<Rightarrow> jsdate \<Rightarrow> db \<Rightarrow> (error + transaction) \<times> db" where
  "processIncomeSource p now s =
     (let income = pi_doc p
      in case pi_walletId p of
           None \<Rightarrow> (Inl TypeError, s)
         | Some walletId \<Rightarrow>
             (case pi_userId p of
                None \<Rightarrow> (Inl TypeError, s)
              | Some userId \<Rightarrow>
                  (case Transaction_create
                          \<lparr>td_walletId = walletId,
                           td_userId = userId,
                           td_title = ''Added Income for '' @ income_name income @ '' on '' @ formatDate now,
                           td_description = orNull (income_description income),
                           td_file = None,
                           td_amount = income_amount income,
                           td_transactionType = IncomeType,
                           td_transactionDate = getTime now\<rparr> now s of
                     Inl e \<Rightarrow> (Inl e, s)
                   | Inr (transaction, s1) \<Rightarrow>
                       (let s2 = UserWallet_inc walletId (income_amount income) s1
                        in case Income_save (income_updateRelaxationDate income now) s2 of
                             Inl e \<Rightarrow> (Inl e, s2)
                           | Inr s3 \<Rightarrow> (Inr transaction, s3)))))"

definition processExpenseSource ::
  "populated_expense \<Rightarrow> jsdate \<Rightarrow> db \<Rightarrow> (error + transaction option) \<times> db" where
  "processExpenseSource p now s =
     (let expense = pe_doc p
      in case pe_walletId p of
           None \<Rightarrow> (Inl TypeError, s)
         | Some walletId \<Rightarrow>
             (case wallets s walletId of
                None \<Rightarrow> (Inr None, s)
              | Some wallet \<Rightarrow>
                  if currentAmount wallet < expense_amount expense then (Inr None, s)
                  else
                    (case pe_userId p of
                       None \<Rightarrow> (Inl TypeError, s)
                     | Some userId \<Rightarrow>
                         (case Transaction_create
                                 \<lparr>td_walletId = walletId,
                                  td_userId = userId,
                                  td_title = ''Added Expense for '' @ expense_name expense @ '' on '' @ formatDate now,
                                  td_description = orNull (expense_description expense),
                                  td_file = None,
                                  td_amount = expense_amount expense,
                                  td_transactionType = ExpenseType,
                                  td_transactionDate = getTime now\<rparr> now s of
                            Inl e \<Rightarrow> (Inl e, s)
                          | Inr (transaction, s1) \<Rightarrow>
                              (let s2 = UserWallet_inc walletId (- expense_amount expense) s1
                               in case expense_updateRelaxationDate expense now of
                                    Inl e \<Rightarrow> (Inl e, s2)
                                  | Inr expense' \<Rightarrow>
                                      (case Expense_save expense' s2 of
                                         Inl e \<Rightarrow> (Inl e, s2)
                                       | Inr s3 \<Rightarrow> (Inr (Some transaction), s3)))))))"

section \<open>Batch driver\<close>

text \<open>
  The two cron jobs. Each run keeps its counters; the income job has no
  \<open>insufficientFundsCount\<close> and leaves it at 0. An exception thrown for one source is
  caught inside the loop body and changes no counter. \<open>outcome\<close> names what happened to
  each source, in the order of the loop (the code shows it in its console lines).
\<close>

datatype outcome = Processed | Skipped | InsufficientFunds | Failed

record stats =
  processedCount :: nat
  skippedCount :: nat
  insufficientFundsCount :: nat

type_synonym run = "db \<times> stats \<times> outcome list"

fun income_loop :: "jsdate \<Rightarrow> jsdate \<Rightarrow> populated_income list \<Rightarrow> run \<Rightarrow> run" where
  "income_loop today now [] r = r"
| "income_loop today now (income # rest) (s, st, outs) =
     (if shouldProcessIncome (pi_doc income) today
      then (case processIncomeSource income now s of
              (Inr transaction, s') \<Rightarrow>
                income_loop today now rest
                  (s', st\<lparr>processedCount := processedCount st + 1\<rparr>, outs @ [Processed])
            | (Inl e, s') \<Rightarrow>
                income_loop today now rest (s', st, outs @ [Failed]))
      else income_loop today now rest
             (s, st\<lparr>skippedCount := skippedCount st + 1\<rparr>, outs @ [Skipped]))"

fun expense_loop :: "jsdate \<Rightarrow> jsdate \<Rightarrow> populated_expense list \<Rightarrow> run \<Rightarrow> run" where
  "expense_loop today now [] r = r"
| "expense_loop today now (expense # rest) (s, st, outs) =
     (if shouldProcessExpense (pe_doc expense) today
      then (case processExpenseSource expense now s of
              (Inr (Some transaction), s') \<Rightarrow>
                expense_loop today now rest
                  (s', st\<lparr>processedCount := processedCount st + 1\<rparr>, outs @ [Processed])
            | (Inr None, s') \<Rightarrow>
                expense_loop today now rest
                  (s', st\<lparr>insufficientFundsCount := insufficientFundsCount st + 1\<rparr>,
                   outs @ [InsufficientFunds])
            | (Inl e, s') \<Rightarrow>
                expense_loop today now rest (s', st, outs @ [Failed]))
      else expense_loop today now rest
             (s, st\<lparr>skippedCount := skippedCount st + 1\<rparr>, outs @ [Skipped]))"

definition no_stats :: stats where
  "no_stats = \<lparr>processedCount = 0, skippedCount = 0, insufficientFundsCount = 0\<rparr>"

text \<open>\<^verbatim>\<open>Income.find({isDeleted: false}).populate("walletId userId")\<close>\<close>

definition find_incomes :: "db \<Rightarrow> populated_income list" where
  "find_incomes s = map (populate_income s) (filter (\<lambda>i. \<not> income_isDeleted i) (incomes s))"


definition checkIncomeSources :: "jsdate \<Rightarrow> db \<Rightarrow> run" where
  "checkIncomeSources now s =
     (let today = setHours0 now;
          incomeSources = find_incomes s
      in income_loop today now incomeSources (s, no_stats, []))"


section \<open>Route handlers\<close>

record response =
  status :: nat
  message :: string

text \<open>
  A JavaScript value read from a property that may be missing. \<^verbatim>\<open><\<close> and \<^verbatim>\<open>-\<close>,
  \<^verbatim>\<open>+\<close> convert \<^verbatim>\<open>undefined\<close> to NaN; a comparison with NaN is false and arithmetic
  on it gives NaN.
\<close>

datatype jsval = Undefined | NaN | Number real

fun js_lt :: "jsval \<Rightarrow> jsval \<Rightarrow> bool" where
  "js_lt (Number a) (Number b) = (a < b)"
| "js_lt _ _ = False"

fun js_sub :: "jsval \<Rightarrow> jsval \<Rightarrow> jsval" where
  "js_sub (Number a) (Number b) = Number (a - b)"
| "js_sub _ _ = NaN"

fun js_add :: "jsval \<Rightarrow> jsval \<Rightarrow> jsval" where
  "js_add (Number a) (Number b) = Number (a + b)"
| "js_add _ _ = NaN"

text \<open>
  A wallet document in the hands of a handler: the schema paths, and the property
  \<^verbatim>\<open>balance\<close> of the JavaScript object. The wallet schema has no path \<^verbatim>\<open>balance\<close>, so
  on a document that a query returns it is \<^verbatim>\<open>undefined\<close>, and \<^verbatim>\<open>save\<close>, which writes
  schema paths, does not store it.
\<close>

record walletDoc =
  wd_id :: nat
  wd_paths :: userWallet
  balance :: jsval

text \<open>\<^verbatim>\<open>UserWallet.findOne({_id: walletId, userId: userId, isDeleted: false})\<close>\<close>

definition UserWallet_findOne :: "nat \<Rightarrow> nat \<Rightarrow> db \<Rightarrow> walletDoc option" where
  "UserWallet_findOne walletId userId s =
     (case wallets s walletId of
        None \<Rightarrow> None
      | Some w \<Rightarrow>
          if wallet_userId w = userId \<and> \<not> wallet_isDeleted w
          then Some \<lparr>wd_id = walletId, wd_paths = w, balance = Undefined\<rparr>
          else None)"

definition UserWallet_save :: "walletDoc \<Rightarrow> db \<Rightarrow> db" where
  "UserWallet_save wallet s = s\<lparr>wallets := (wallets s)(wd_id wallet \<mapsto> wd_paths wallet)\<rparr>"

subsection \<open>POST /api/transactions\<close>

record transactionRequest =
  tr_walletId :: nat
  tr_title :: string
  tr_description :: "string option"
  tr_amount :: real
  tr_transactionType :: transaction_type
  tr_transactionDate :: "int option"
  tr_file :: "string option"

definition createTransaction ::
  "nat \<Rightarrow> transactionRequest \<Rightarrow> jsdate \<Rightarrow> db \<Rightarrow> response \<times> db" where
  "createTransaction userId req now s =
     (let title = trim (tr_title req);
          description = map_option trim (tr_description req);
          amount = tr_amount req;
          walletId = tr_walletId req
      in if title = [] \<or> amount < 0
         then (\<lparr>status = 400, message = ''Validation failed''\<rparr>, s)
         else
           (case UserWallet_findOne walletId userId s of
              None \<Rightarrow>
                (\<lparr>status = 404, message = ''Wallet not found or does not belong to you''\<rparr>, s)
            | Some wallet \<Rightarrow>
                (case Transaction_create
                        \<lparr>td_walletId = walletId,
                         td_userId = userId,
                         td_title = title,
                         td_description = orNull description,
                         td_file = map_option (\<lambda>f. ''/uploads/transactions/'' @ f) (tr_file req),
                         td_amount = amount,
                         td_transactionType = tr_transactionType req,
                         td_transactionDate =
                           (case tr_transactionDate req of Some d \<Rightarrow> d | None \<Rightarrow> getTime now)\<rparr> now s of
                   Inl e \<Rightarrow> (\<lparr>status = 500, message = ''Failed to create transaction''\<rparr>, s)
                 | Inr (transaction, s1) \<Rightarrow>
                     (case tr_transactionType req of
                        IncomeType \<Rightarrow>
                          (\<lparr>status = 201, message = ''Transaction created successfully''\<rparr>,
                           UserWallet_inc walletId amount s1)
                      | ExpenseType \<Rightarrow>
                          if currentAmount (wd_paths wallet) < amount
                          then (\<lparr>status = 400, message = ''Insufficient balance in wallet''\<rparr>,
                                Transaction_findByIdAndDelete (transaction_id transaction) s1)
                          else (\<lparr>status = 201, message = ''Transaction created successfully''\<rparr>,
                                UserWallet_inc walletId (- amount) s1)))))"

subsection \<open>GET and DELETE /api/transactions\<close>

text \<open>\<^verbatim>\<open>Transaction.findOne({_id: id, userId: userId, isDeleted: false})\<close>\<close>

definition Transaction_findOne :: "nat \<Rightarrow> nat \<Rightarrow> db \<Rightarrow> transaction option" where
  "Transaction_findOne i userId s =
     find (\<lambda>t. transaction_id t = i \<and> tx_userId t = userId \<and> \<not> tx_isDeleted t) (transactions s)"

text \<open>\<^verbatim>\<open>transactionSchema.methods.softDelete\<close> sets the two paths and saves. The
  \<^verbatim>\<open>save\<close> writes the changed document back under its id and, the schema having
  timestamps, sets its \<^verbatim>\<open>updatedAt\<close> to the time of the save.\<close>

definition Transaction_save :: "transaction \<Rightarrow> jsdate \<Rightarrow> db \<Rightarrow> db" where
  "Transaction_save t now s =
     s\<lparr>transactions :=
          map (\<lambda>d. if transaction_id d = transaction_id t
                    then t\<lparr>tx_updatedAt := getTime now\<rparr> else d) (transactions s)\<rparr>"

definition softDelete :: "transaction \<Rightarrow> jsdate \<Rightarrow> db \<Rightarrow> db" where
  "softDelete t now s =
     Transaction_save (t\<lparr>tx_isDeleted := True, tx_deletedAt := Some (getTime now)\<rparr>) now s"

definition deleteTransaction :: "nat \<Rightarrow> nat \<Rightarrow> jsdate \<Rightarrow> db \<Rightarrow> response \<times> db" where
  "deleteTransaction userId i now s =
     (case Transaction_findOne i userId s of
        None \<Rightarrow> (\<lparr>status = 404, message = ''Transaction not found''\<rparr>, s)
      | Some transaction \<Rightarrow>
          (\<lparr>status = 200, message = ''Transaction deleted successfully''\<rparr>,
           softDelete transaction now s))"

definition getTransaction :: "nat \<Rightarrow> nat \<Rightarrow> db \<Rightarrow> response \<times> transaction option" where
  "getTransaction userId i s =
     (case Transaction_findOne i userId s of
        None \<Rightarrow> (\<lparr>status = 404, message = ''Transaction not found''\<rparr>, None)
      | Some transaction \<Rightarrow> (\<lparr>status = 200, message = []\<rparr>, Some transaction))"

record listQuery =
  q_walletId :: "nat option"
  q_transactionType :: "transaction_type option"
  q_startDate :: "int option"
  q_endDate :: "int option"

record summary =
  totalIncome :: real
  totalExpense :: real
  netAmount :: real

text \<open>The query that GET /api/transactions builds: the user's transactions that are not
  deleted, narrowed by the optional filters.\<close>

definition matches :: "nat \<Rightarrow> listQuery \<Rightarrow> transaction \<Rightarrow> bool" where
  "matches userId q t \<longleftrightarrow>
     tx_userId t = userId \<and> tx_isDeleted t = False \<and>
     (case q_walletId q of None \<Rightarrow> True | Some w \<Rightarrow> tx_walletId t = w) \<and>
     (case q_transactionType q of None \<Rightarrow> True | Some ty \<Rightarrow> transactionType t = ty) \<and>
     (case q_startDate q of None \<Rightarrow> True | Some d \<Rightarrow> d \<le> transactionDate t) \<and>
     (case q_endDate q of None \<Rightarrow> True | Some d \<Rightarrow> transactionDate t \<le> d)"

text \<open>\<^verbatim>\<open>.sort({transactionDate: -1}).limit(100)\<close>\<close>

definition listed :: "nat \<Rightarrow> listQuery \<Rightarrow> db \<Rightarrow> transaction list" where
  "listed userId q s =
     take 100 (sort_key (\<lambda>t. - transactionDate t) (filter (matches userId q) (transactions s)))"

definition summarize :: "transaction list \<Rightarrow> summary" where
  "summarize ts =
     (let sm = foldl (\<lambda>sm t. if transactionType t = IncomeType
                              then sm\<lparr>totalIncome := totalIncome sm + tx_amount t\<rparr>
                              else sm\<lparr>totalExpense := totalExpense sm + tx_amount t\<rparr>)
                 \<lparr>totalIncome = 0, totalExpense = 0, netAmount = 0\<rparr> ts
      in sm\<lparr>netAmount := totalIncome sm - totalExpense sm\<rparr>)"

definition listTransactions ::
  "nat \<Rightarrow> listQuery \<Rightarrow> db \<Rightarrow> response \<times> transaction list \<times> summary" where
  "listTransactions userId q s =
     (case q_walletId q of
        Some walletId \<Rightarrow>
          (case UserWallet_findOne walletId userId s of
             None \<Rightarrow>
               (\<lparr>status = 404, message = ''Wallet not found or does not belong to you''\<rparr>, [],
                summarize [])
           | Some wallet \<Rightarrow>
               (\<lparr>status = 200, message = []\<rparr>, listed userId q s, summarize (listed userId q s)))
      | None \<Rightarrow>
          (\<lparr>status = 200, message = []\<rparr>, listed userId q s, summarize (listed userId q s)))"

subsection \<open>POST /api/expenses\<close>

record expenseRequest =
  er_walletId :: nat
  er_name :: string
  er_description :: "string option"
  er_amount :: real
  er_isFixedExpense :: "bool option"
  er_cycleDate :: "int option"
  er_cycleType :: "cycle_type option"
  er_entryDate :: "int option"

record expenseData =
  ed_userId :: nat
  ed_walletId :: nat
  ed_name :: string
  ed_description :: "string option"
  ed_amount :: real
  ed_isFixedExpense :: bool
  ed_cycleDate :: "int option"
  ed_cycleType :: "cycle_type option"
  ed_entryDate :: "int option"

text \<open>\<^verbatim>\<open>Expense.create\<close>: the expense schema trims, fills the entry date of a
  spontaneous expense that has none with the current time, and validates (name required,
  at most 100 characters; description at most 500; amount at least 0; the cycle, day 1 to
  31, required of a fixed expense; the entry date required of a spontaneous one).\<close>

definition Expense_create :: "expenseData \<Rightarrow> jsdate \<Rightarrow> db \<Rightarrow> error + (expense \<times> db)" where
  "Expense_create d now s =
     (let name = trim (ed_name d);
          description = map_option trim (ed_description d);
          entryDate = (case ed_entryDate d of
                         Some e \<Rightarrow> Some e
                       | None \<Rightarrow> if \<not> ed_isFixedExpense d then Some (getTime now) else None)
      in if name = [] \<or> 100 < length name
            \<or> (case description of None \<Rightarrow> False | Some x \<Rightarrow> 500 < length x)
            \<or> ed_amount d < 0
            \<or> (ed_isFixedExpense d \<and> (ed_cycleDate d = None \<or> ed_cycleType d = None))
            \<or> (case ed_cycleDate d of None \<Rightarrow> False | Some c \<Rightarrow> c < 1 \<or> 31 < c)
            \<or> (\<not> ed_isFixedExpense d \<and> entryDate = None)
         then Inl ValidationError
         else
           (let e = \<lparr>expense_id = nextId s,
                     expense_userId = ed_userId d,
                     expense_walletId = ed_walletId d,
                     expense_name = name,
                     expense_description = description,
                     expense_amount = ed_amount d,
                     isFixedExpense = ed_isFixedExpense d,
                     expense_cycleDate = ed_cycleDate d,
                     expense_cycleType = ed_cycleType d,
                     expense_entryDate = entryDate,
                     expense_relaxationDate = None,
                     expense_isDeleted = False,
                     expense_deletedAt = None\<rparr>
            in Inr (e, s\<lparr>expenses := expenses s @ [e], nextId := nextId s + 1\<rparr>)))"

definition Expense_findByIdAndDelete :: "nat \<Rightarrow> db \<Rightarrow> db" where
  "Expense_findByIdAndDelete i s =
     s\<lparr>expenses := filter (\<lambda>e. expense_id e \<noteq> i) (expenses s)\<rparr>"

text \<open>The validation chain of the route: what the handler is not entered without.\<close>

definition expenseRequest_ok :: "expenseRequest \<Rightarrow> bool" where
  "expenseRequest_ok req \<longleftrightarrow>
     trim (er_name req) \<noteq> [] \<and> 0 \<le> er_amount req \<and>
     (er_isFixedExpense req \<noteq> Some False \<longrightarrow>
        (case er_cycleDate req of None \<Rightarrow> False | Some c \<Rightarrow> 1 \<le> c \<and> c \<le> 31) \<and>
        er_cycleType req \<noteq> None)"

definition createExpense ::
  "nat \<Rightarrow> expenseRequest \<Rightarrow> jsdate \<Rightarrow> db \<Rightarrow> response \<times> db" where
  "createExpense userId req now s =
     (let name = trim (er_name req);
          description = map_option trim (er_description req);
          amount = er_amount req;
          walletId = er_walletId req
      in if \<not> expenseRequest_ok req
         then (\<lparr>status = 400, message = ''Validation failed''\<rparr>, s)
         else
           (case UserWallet_findOne walletId userId s of
              None \<Rightarrow>
                (\<lparr>status = 404, message = ''Wallet not found or does not belong to you''\<rparr>, s)
            | Some wallet \<Rightarrow>
                (let isFixed = (case er_isFixedExpense req of None \<Rightarrow> True | Some b \<Rightarrow> b);
                     entryDate = (case er_entryDate req of Some d \<Rightarrow> d | None \<Rightarrow> getTime now);
                     expenseData =
                       \<lparr>ed_userId = userId,
                        ed_walletId = walletId,
                        ed_name = name,
                        ed_description = description,
                        ed_amount = amount,
                        ed_isFixedExpense = isFixed,
                        ed_cycleDate = (if isFixed then er_cycleDate req else None),
                        ed_cycleType = (if isFixed then er_cycleType req else None),
                        ed_entryDate = (if isFixed then None else Some entryDate)\<rparr>
                 in case Expense_create expenseData now s of
                      Inl e \<Rightarrow> (\<lparr>status = 500, message = ''Failed to create expense source''\<rparr>, s)
                    | Inr (expense, s1) \<Rightarrow>
                        if \<not> isFixed then
                          (if js_lt (balance wallet) (Number amount)
                           then (\<lparr>status = 400, message = ''Insufficient wallet balance''\<rparr>,
                                 Expense_findByIdAndDelete (expense_id expense) s1)
                           else
                             (case Transaction_create
                                     \<lparr>td_walletId = walletId,
                                      td_userId = userId,
                                      td_title = ''Expense: '' @ name,
                                      td_description =
                                        (case orNull description of
                                           Some x \<Rightarrow> Some x
                                         | None \<Rightarrow> Some (''Spontaneous expense for '' @ name)),
                                      td_file = None,
                                      td_amount = amount,
                                      td_transactionType = ExpenseType,
                                      td_transactionDate = entryDate\<rparr> now s1 of
                                Inl e \<Rightarrow>
                                  (\<lparr>status = 500, message = ''Failed to create expense source''\<rparr>, s1)
                              | Inr (transaction, s2) \<Rightarrow>
                                  (let wallet' = wallet\<lparr>balance := js_sub (balance wallet) (Number amount)\<rparr>;
                                       s3 = UserWallet_save wallet' s2
                                   in (\<lparr>status = 201, message = ''Expense source created successfully''\<rparr>,
                                       s3))))
                        else (\<lparr>status = 201, message = ''Expense source created successfully''\<rparr>, s1))))"

subsection \<open>POST /api/incomes\<close>

record incomeRequest =
  ir_walletId :: nat
  ir_name :: string
  ir_description :: "string option"
  ir_amount :: real
  ir_isFixedIncome :: "bool option"
  ir_cycleDate :: "int option"
  ir_cycleType :: "cycle_type option"
  ir_entryDate :: "int option"

record incomeData =
  id_userId :: nat
  id_walletId :: nat
  id_name :: string
  id_description :: "string option"
  id_amount :: real
  id_isFixedIncome :: bool
  id_cycleDate :: "int option"
  id_cycleType :: "cycle_type option"
  id_entryDate :: "int option"

text \<open>\<^verbatim>\<open>Income.create\<close>: the income schema has no paths \<^verbatim>\<open>isFixedIncome\<close> and
  \<^verbatim>\<open>entryDate\<close> (they are dropped) and requires the cycle of every income.\<close>

definition Income_create :: "incomeData \<Rightarrow> db \<Rightarrow> error + (income \<times> db)" where
  "Income_create d s =
     (let name = trim (id_name d);
          description = map_option trim (id_description d)
      in case (id_cycleDate d, id_cycleType d) of
           (Some cycleDate, Some cycleType) \<Rightarrow>
             if name = [] \<or> 100 < length name
                \<or> (case description of None \<Rightarrow> False | Some x \<Rightarrow> 500 < length x)
                \<or> id_amount d < 0 \<or> cycleDate < 1 \<or> 31 < cycleDate
             then Inl ValidationError
             else
               (let i = \<lparr>income_id = nextId s,
                         income_userId = id_userId d,
                         income_walletId = id_walletId d,
                         income_name = name,
                         income_description = description,
                         income_amount = id_amount d,
                         income_cycleDate = cycleDate,
                         income_cycleType = cycleType,
                         income_relaxationDate = None,
                         income_isDeleted = False,
                         income_deletedAt = None\<rparr>
                in Inr (i, s\<lparr>incomes := incomes s @ [i], nextId := nextId s + 1\<rparr>))
         | _ \<Rightarrow> Inl ValidationError)"

definition incomeRequest_ok :: "incomeRequest \<Rightarrow> bool" where
  "incomeRequest_ok req \<longleftrightarrow>
     trim (ir_name req) \<noteq> [] \<and> 0 \<le> ir_amount req \<and>
     (ir_isFixedIncome req \<noteq> Some False \<longrightarrow>
        (case ir_cycleDate req of None \<Rightarrow> False | Some c \<Rightarrow> 1 \<le> c \<and> c \<le> 31) \<and>
        ir_cycleType req \<noteq> None)"

definition createIncome ::
  "nat \<Rightarrow> incomeRequest \<Rightarrow> jsdate \<Rightarrow> db \<Rightarrow> response \<times> db" where
  "createIncome userId req now s =
     (let name = trim (ir_name req);
          description = map_option trim (ir_description req);
          amount = ir_amount req;
          walletId = ir_walletId req
      in if \<not> incomeRequest_ok req
         then (\<lparr>status = 400, message = ''Validation failed''\<rparr>, s)
         else
           (case UserWallet_findOne walletId userId s of
              None \<Rightarrow>
                (\<lparr>status = 404, message = ''Wallet not found or does not belong to you''\<rparr>, s)
            | Some wallet \<Rightarrow>
                (let isFixed = (case ir_isFixedIncome req of None \<Rightarrow> True | Some b \<Rightarrow> b);
                     entryDate = (case ir_entryDate req of Some d \<Rightarrow> d | None \<Rightarrow> getTime now);
                     incomeData =
                       \<lparr>id_userId = userId,
                        id_walletId = walletId,
                        id_name = name,
                        id_description = description,
                        id_amount = amount,
                        id_isFixedIncome = isFixed,
                        id_cycleDate = (if isFixed then ir_cycleDate req else None),
                        id_cycleType = (if isFixed then ir_cycleType req else None),
                        id_entryDate = (if isFixed then None else Some entryDate)\<rparr>
                 in case Income_create incomeData s of
                      Inl e \<Rightarrow> (\<lparr>status = 500, message = ''Failed to create income source''\<rparr>, s)
                    | Inr (income, s1) \<Rightarrow>
                        if \<not> isFixed then
                          (case Transaction_create
                                  \<lparr>td_walletId = walletId,
                                   td_userId = userId,
                                   td_title = ''Income: '' @ name,
                                   td_description =
                                     (case orNull description of
                                        Some x \<Rightarrow> Some x
                                      | None \<Rightarrow> Some (''Spontaneous income from '' @ name)),
                                   td_file = None,
                                   td_amount = amount,
                                   td_transactionType = IncomeType,
                                   td_transactionDate = entryDate\<rparr> now s1 of
                             Inl e \<Rightarrow>
                               (\<lparr>status = 500, message = ''Failed to create income source''\<rparr>, s1)
                           | Inr (transaction, s2) \<Rightarrow>
                               (let wallet' = wallet\<lparr>balance := js_add (balance wallet) (Number amount)\<rparr>;
                                    s3 = UserWallet_save wallet' s2
                                in (\<lparr>status = 201, message = ''Income source created successfully''\<rparr>,
                                    s3)))
                        else (\<lparr>status = 201, message = ''Income source created successfully''\<rparr>, s1))))"

section \<open>Schema constraints on stored sources\<close>



section \<open>Sample data\<close>

text \<open>A user with one wallet of balance 10000, a monthly salary of 3000 and a monthly
  subscription of 400 on day 5, a monthly rent of 50000 on day 5 that the wallet cannot
  pay, and yearly sources on day 15.\<close>

definition ex_wallet :: userWallet where
  "ex_wallet = \<lparr>wallet_userId = 1, initialAmount = 10000, currentAmount = 10000,
     wallet_isDeleted = False\<rparr>"

definition ex_salary :: income where
  "ex_salary = \<lparr>income_id = 10, income_userId = 1, income_walletId = 7,
     income_name = ''Salary'', income_description = None, income_amount = 3000,
     income_cycleDate = 5, income_cycleType = Monthly, income_relaxationDate = None,
     income_isDeleted = False, income_deletedAt = None\<rparr>"

definition ex_dividend :: income where
  "ex_dividend = \<lparr>income_id = 11, income_userId = 1, income_walletId = 7,
     income_name = ''Dividend'', income_description = None, income_amount = 800,
     income_cycleDate = 15, income_cycleType = Yearly, income_relaxationDate = None,
     income_isDeleted = False, income_deletedAt = None\<rparr>"

definition ex_subscription :: expense where
  "ex_subscription = \<lparr>expense_id = 20, expense_userId = 1, expense_walletId = 7,
     expense_name = ''Subscription'', expense_description = None, expense_amount = 400,
     isFixedExpense = True, expense_cycleDate = Some 5, expense_cycleType = Some Monthly,
     expense_entryDate = None, expense_relaxationDate = None, expense_isDeleted = False,
     expense_deletedAt = None\<rparr>"

definition ex_rent :: expense where
  "ex_rent = \<lparr>expense_id = 21, expense_userId = 1, expense_walletId = 7,
     expense_name = ''Rent'', expense_description = None, expense_amount = 50000,
     isFixedExpense = True, expense_cycleDate = Some 5, expense_cycleType = Some Monthly,
     expense_entryDate = None, expense_relaxationDate = None, expense_isDeleted = False,
     expense_deletedAt = None\<rparr>"

definition ex_insurance :: expense where
  "ex_insurance = \<lparr>expense_id = 22, expense_userId = 1, expense_walletId = 7,
     expense_name = ''Insurance'', expense_description = None, expense_amount = 900,
     isFixedExpense = True, expense_cycleDate = Some 15, expense_cycleType = Some Yearly,
     expense_entryDate = None, expense_relaxationDate = None, expense_isDeleted = False,
     expense_deletedAt = None\<rparr>"

definition ex_db :: db where
  "ex_db = \<lparr>wallets = [7 \<mapsto> ex_wallet], users = {1}, transactions = [],
     incomes = [ex_salary], expenses = [ex_subscription, ex_rent], nextId = 100\<rparr>"

text \<open>5 January 2024 and 15 June 2024, 09:00, when the cron jobs run.\<close>

definition ex_now :: jsdate where
  "ex_now = \<lparr>getFullYear = 2024, getMonth = 0, getDate = 5, msOfDay = 32400000\<rparr>"

definition ex_june15 :: jsdate where
  "ex_june15 = \<lparr>getFullYear = 2024, getMonth = 5, getDate = 15, msOfDay = 32400000\<rparr>"

text \<open>Requests of user 1 on the wallet: a manual expense transaction of 2500, a
  spontaneous expense of 500, and a spontaneous expense of 50000, more than the wallet
  holds.\<close>

definition ex_payment :: transactionRequest where
  "ex_payment = \<lparr>tr_walletId = 7, tr_title = ''Groceries'', tr_description = None,
     tr_amount = 2500, tr_transactionType = ExpenseType, tr_transactionDate = None,
     tr_file = None\<rparr>"

definition ex_spontaneous :: expenseRequest where
  "ex_spontaneous = \<lparr>er_walletId = 7, er_name = ''Taxi'', er_description = None,
     er_amount = 500, er_isFixedExpense = Some False, er_cycleDate = None,
     er_cycleType = None, er_entryDate = None\<rparr>"

definition ex_overdraft :: expenseRequest where
  "ex_overdraft = \<lparr>er_walletId = 7, er_name = ''Car'', er_description = None,
     er_amount = 50000, er_isFixedExpense = Some False, er_cycleDate = None,
     er_cycleType = None, er_entryDate = None\<rparr>"

text \<open>The wallet's ledger with one stored transaction, and a query without filters.\<close>

definition ex_tx :: transaction where
  "ex_tx = \<lparr>transaction_id = 50, tx_walletId = 7, tx_userId = 1, tx_title = ''Groceries'',
     tx_description = None, tx_file = None, transactionDate = 1704445200000, tx_amount = 2500,
     transactionType = ExpenseType, tx_isDeleted = False, tx_deletedAt = None,
     tx_createdAt = 1704445200000, tx_updatedAt = 1704445200000\<rparr>"

definition ex_ledger :: db where
  "ex_ledger = ex_db\<lparr>transactions := [ex_tx]\<rparr>"

definition ex_query :: listQuery where
  "ex_query = \<lparr>q_walletId = None, q_transactionType = None, q_startDate = None,
     q_endDate = None\<rparr>"




definition ex_gift :: incomeRequest where
  "ex_gift = \<lparr>ir_walletId = 7, ir_name = ''Gift'', ir_description = None,
     ir_amount = 200, ir_isFixedIncome = Some False, ir_cycleDate = None,
     ir_cycleType = None, ir_entryDate = None\<rparr>"

section \<open>Calendar arithmetic\<close>

lemma div_succ_int:
  fixes z n :: int
  assumes "0 < n"
  shows "(z + 1) div n = z div n + (if (z + 1) mod n = 0 then 1 else 0)"
proof -
  have r: "0 \<le> z mod n" "z mod n < n" using assms by auto
  have z: "z = n * (z div n) + z mod n" by simp
  show ?thesis
  proof (cases "z mod n = n - 1")
    case True
    have "z + 1 = n * (z div n) + n" using z True by linarith
    then have eq: "z + 1 = n * (z div n + 1) + 0" by (simp add: algebra_simps)
    have "(z + 1) div n = z div n + 1" "(z + 1) mod n = 0"
      using int_div_pos_eq [OF eq] int_mod_pos_eq [OF eq] assms by auto
    then show ?thesis by simp
  next
    case False
    have eq: "z + 1 = n * (z div n) + (z mod n + 1)" using z by linarith
    have lt: "z mod n + 1 < n" using r False by linarith
    have "(z + 1) div n = z div n" "(z + 1) mod n = z mod n + 1"
      using int_div_pos_eq [OF eq _ lt] int_mod_pos_eq [OF eq _ lt] r by auto
    then show ?thesis using r by simp
  qed
qed

lemma mod_sub_mult: "(a - n * k) mod n = a mod (n::int)"
proof -
  have "(a + n * (- k)) mod n = a mod n" by (rule mod_mult_self2)
  then show ?thesis by simp
qed

text \<open>The day number of 1 January advances by the length of the year.\<close>

lemma DayFromYear_Suc: "DayFromYear (y + 1) = DayFromYear y + DaysInYear y"
proof -
  have a': "(y - 1968) mod 4 = y mod 4" using mod_sub_mult [of y 4 492] by simp
  have b': "(y - 1900) mod 100 = y mod 100" using mod_sub_mult [of y 100 19] by simp
  have c': "(y - 1600) mod 400 = y mod 400" using mod_sub_mult [of y 400 4] by simp
  have a: "(y - 1968) div 4 = (y - 1969) div 4 + (if y mod 4 = 0 then 1 else 0)"
    using div_succ_int [of 4 "y - 1969"] a' by (simp add: algebra_simps)
  have b: "(y - 1900) div 100 = (y - 1901) div 100 + (if y mod 100 = 0 then 1 else 0)"
    using div_succ_int [of 100 "y - 1901"] b' by (simp add: algebra_simps)
  have c: "(y - 1600) div 400 = (y - 1601) div 400 + (if y mod 400 = 0 then 1 else 0)"
    using div_succ_int [of 400 "y - 1601"] c' by (simp add: algebra_simps)
  have d: "y mod 400 = 0 \<Longrightarrow> y mod 100 = 0"
    using dvd_trans [of 100 400 y] by (simp add: mod_eq_0_iff_dvd)
  have e: "y mod 100 = 0 \<Longrightarrow> y mod 4 = 0"
    using dvd_trans [of 4 100 y] by (simp add: mod_eq_0_iff_dvd)
  define A :: int where "A = (if y mod 4 = 0 then 1 else 0)"
  define B :: int where "B = (if y mod 100 = 0 then 1 else 0)"
  define C :: int where "C = (if y mod 400 = 0 then 1 else 0)"
  define p where "p = (y - 1969) div 4"
  define q where "q = (y - 1901) div 100"
  define r where "r = (y - 1601) div 400"
  have diy: "DaysInYear y = 365 + A - B + C"
    using d e by (simp add: DaysInYear_def A_def B_def C_def)
  have "DayFromYear (y + 1) =
      365 * (y - 1969) + (y - 1968) div 4 - (y - 1900) div 100 + (y - 1600) div 400"
    by (simp add: DayFromYear_def)
  also have "\<dots> = 365 * (y - 1969) + (p + A) - (q + B) + (r + C)"
    unfolding a b c A_def B_def C_def p_def q_def r_def ..
  also have "\<dots> = (365 * (y - 1970) + p - q + r) + (365 + A - B + C)"
    by (simp add: algebra_simps)
  finally show ?thesis
    unfolding diy by (simp only: DayFromYear_def p_def q_def r_def)
qed

lemma InLeapYear_cases: "InLeapYear y = 0 \<or> InLeapYear y = 1"
  by (simp add: InLeapYear_def)

lemma DaysInYear_leap: "DaysInYear y = 365 + InLeapYear y"
  by (simp add: InLeapYear_def DaysInYear_def)

lemma month_cases:
  "0 \<le> m \<Longrightarrow> m \<le> 11 \<Longrightarrow>
   m = 0 \<or> m = 1 \<or> m = 2 \<or> m = 3 \<or> m = 4 \<or> m = 5 \<or> m = 6 \<or> m = 7 \<or> m = 8 \<or> m = 9 \<or>
   m = 10 \<or> m = (11::int)"
  by arith

lemma MakeDay_upto_12:
  assumes "0 \<le> m" "m \<le> 12"
  shows "MakeDay y m d = DayFromYear y + monthStart (InLeapYear y) m + d - 1"
proof (cases "m = 12")
  case True
  then show ?thesis
    by (simp add: MakeDay_def Let_def DayFromYear_Suc monthStart_def DaysInYear_leap)
next
  case False
  then have "m div 12 = 0" "m mod 12 = m" using assms by auto
  then show ?thesis by (simp add: MakeDay_def Let_def)
qed

lemma monthStart_next_quarter:
  assumes "0 \<le> m" "m \<le> 11" "leap = 0 \<or> leap = 1"
  shows "monthStart leap (m + 1) \<le> monthStart leap ((m div 3 + 1) * 3)"
  using month_cases [OF assms(1,2)] assms(3)
  by (elim disjE) (simp_all add: monthStart_def)

lemma monthStart_next_year:
  assumes "0 \<le> m" "m \<le> 11" "leap = 0 \<or> leap = 1"
  shows "monthStart leap (m + 1) \<le> monthStart leap 12"
  using month_cases [OF assms(1,2)] assms(3)
  by (elim disjE) (simp_all add: monthStart_def)

lemma new_Date_clock_year: "1970 \<le> y \<Longrightarrow> new_Date y m d = MakeDay y m d * msPerDay"
  by (simp add: new_Date_def)

text \<open>A valid instant lies before the first day of the following month.\<close>

lemma getTime_before_month_end:
  assumes "valid_date now"
  shows "getTime now <
    (DayFromYear (getFullYear now) + monthStart (InLeapYear (getFullYear now)) (getMonth now + 1))
      * msPerDay"
proof -
  let ?y = "getFullYear now" and ?m = "getMonth now"
  let ?D = "DayFromYear ?y + monthStart (InLeapYear ?y) ?m + getDate now - 1"
  from assms have v: "0 \<le> ?m" "?m \<le> 11" "getDate now \<le> daysInMonth ?y ?m"
    "msOfDay now < msPerDay"
    by (simp_all add: valid_date_def)
  have "getTime now = ?D * msPerDay + msOfDay now"
    using v by (simp add: getTime_def MakeDay_upto_12)
  also have "\<dots> < (?D + 1) * msPerDay"
    using v(4) by (simp add: algebra_simps)
  also have "\<dots> \<le> (DayFromYear ?y + monthStart (InLeapYear ?y) (?m + 1)) * msPerDay"
    using v(3) by (simp add: daysInMonth_def msPerDay_def)
  finally show ?thesis .
qed

text \<open>Day \<open>d\<close> (at least 1) of any later month of the year, or of the January after it,
  lies after a valid instant.\<close>

lemma getTime_before_later_month:
  assumes "valid_date now" "1 \<le> d" "k \<le> 12"
    and "monthStart (InLeapYear (getFullYear now)) (getMonth now + 1)
           \<le> monthStart (InLeapYear (getFullYear now)) k"
    and "0 \<le> k"
  shows "getTime now < new_Date (getFullYear now) k d"
proof -
  let ?y = "getFullYear now"
  have y: "1970 \<le> ?y" using assms(1) by (simp add: valid_date_def)
  have "getTime now < (DayFromYear ?y + monthStart (InLeapYear ?y) (getMonth now + 1)) * msPerDay"
    by (rule getTime_before_month_end [OF assms(1)])
  also have "\<dots> \<le> (DayFromYear ?y + monthStart (InLeapYear ?y) k + d - 1) * msPerDay"
    using assms(2,4) by (simp add: msPerDay_def)
  also have "\<dots> = new_Date ?y k d"
    using y assms(3,5) by (simp add: new_Date_clock_year MakeDay_upto_12)
  finally show ?thesis .
qed

lemma next_month_future:
  assumes "valid_date now" "1 \<le> d"
  shows "getTime now < new_Date (getFullYear now) (getMonth now + 1) d"
  using assms by (intro getTime_before_later_month) (simp_all add: valid_date_def)

lemma next_quarter_future:
  assumes "valid_date now" "1 \<le> d"
  shows "getTime now < new_Date (getFullYear now) ((getMonth now div 3 + 1) * 3) d"
proof -
  have m: "0 \<le> getMonth now" "getMonth now \<le> 11" using assms(1) by (simp_all add: valid_date_def)
  have "(getMonth now div 3 + 1) * 3 \<le> 12" "0 \<le> (getMonth now div 3 + 1) * 3"
    using m by auto
  then show ?thesis
    using assms m monthStart_next_quarter [OF m InLeapYear_cases]
    by (intro getTime_before_later_month) simp_all
qed

lemma next_year_future:
  assumes "valid_date now" "1 \<le> d"
  shows "getTime now < new_Date (getFullYear now + 1) 0 d"
proof -
  let ?y = "getFullYear now"
  have m: "0 \<le> getMonth now" "getMonth now \<le> 11" "1970 \<le> ?y"
    using assms(1) by (simp_all add: valid_date_def)
  have "getTime now < new_Date ?y 12 d"
    using assms m monthStart_next_year [OF m(1,2) InLeapYear_cases]
    by (intro getTime_before_later_month) simp_all
  also have "\<dots> = new_Date (?y + 1) 0 d"
    using m(3) by (simp add: new_Date_clock_year MakeDay_def)
  finally show ?thesis .
qed

lemma income_nextDate_future:
  assumes "valid_date now" "1 \<le> income_cycleDate inc"
  shows "getTime now < income_nextDate inc now"
  using next_month_future [OF assms] next_quarter_future [OF assms] next_year_future [OF assms]
  by (cases "income_cycleType inc") (simp_all add: income_nextDate_def Let_def)

lemma expense_nextDate_future:
  assumes "valid_date now" "expense_cycleDate ex = Some d" "1 \<le> d" "expense_cycleType ex = Some c"
  shows "\<exists>t. expense_nextDate ex now = Some t \<and> getTime now < t"
  using next_month_future [OF assms(1,3)] next_quarter_future [OF assms(1,3)]
    next_year_future [OF assms(1,3)] assms(2,4)
  by (cases c) (simp_all add: expense_nextDate_def Let_def)

section \<open>Cycle calculator\<close>

text \<open>
  C7: for a fixed source with a cycle day of at least 1 and any of the three cycle types,
  and any valid clock reading, the date that \<^verbatim>\<open>updateRelaxationDate\<close> stores is
  strictly after the reading: never the same instant, never a past one. This holds for
  the income and for the expense method.
\<close>

theorem updateRelaxationDate_strictly_future:
  assumes "valid_date now"
    and "1 \<le> income_cycleDate inc"
    and "expense_cycleDate ex = Some d" and "1 \<le> d" and "expense_cycleType ex = Some c"
  shows "(\<exists>t. income_relaxationDate (income_updateRelaxationDate inc now) = Some t
              \<and> getTime now < t)
       \<and> (\<exists>ex' t. expense_updateRelaxationDate ex now = Inr ex'
              \<and> expense_relaxationDate ex' = Some t \<and> getTime now < t)"
proof
  show "\<exists>t. income_relaxationDate (income_updateRelaxationDate inc now) = Some t
              \<and> getTime now < t"
    using income_nextDate_future [OF assms(1,2)]
    by (simp add: income_updateRelaxationDate_def)
next
  obtain t where "expense_nextDate ex now = Some t" "getTime now < t"
    using expense_nextDate_future [OF assms(1,3,4,5)] by blast
  then show "\<exists>ex' t. expense_updateRelaxationDate ex now = Inr ex'
              \<and> expense_relaxationDate ex' = Some t \<and> getTime now < t"
    by (simp add: expense_updateRelaxationDate_def)
qed

lemma valid_ex_now: "valid_date ex_now"
  by (simp add: valid_date_def ex_now_def daysInMonth_def monthStart_def msPerDay_def)

lemma valid_ex_june15: "valid_date ex_june15"
  by (simp add: valid_date_def ex_june15_def daysInMonth_def monthStart_def msPerDay_def)

theorem updateRelaxationDate_strictly_future_witness:
  "(\<exists>t. income_relaxationDate (income_updateRelaxationDate ex_salary ex_now) = Some t
         \<and> getTime ex_now < t)
   \<and> (\<exists>ex' t. expense_updateRelaxationDate ex_rent ex_now = Inr ex'
         \<and> expense_relaxationDate ex' = Some t \<and> getTime ex_now < t)"
  using updateRelaxationDate_strictly_future [OF valid_ex_now, of ex_salary ex_rent 5 Monthly]
  by (simp add: ex_salary_def ex_rent_def)

lemma monthStart_ge_31:
  assumes "1 \<le> m" "m \<le> 11" "leap = 0 \<or> leap = 1"
  shows "31 \<le> monthStart leap m"
proof -
  have "0 \<le> m" using assms(1) by simp
  from month_cases [OF this assms(2)] assms(1,3) show ?thesis
    by (elim disjE) (simp_all add: monthStart_def)
qed

text \<open>Outside January the yearly case always takes its second branch: the date stored
  is in January of the following year, which is earlier than the same month of that
  year.\<close>

lemma yearly_outside_january:
  assumes "valid_date now" "1 \<le> getMonth now" "d \<le> 31"
  shows "new_Date (getFullYear now) 0 d \<le> getTime now"
    and "new_Date (getFullYear now + 1) 0 d < new_Date (getFullYear now + 1) (getMonth now) d"
proof -
  let ?y = "getFullYear now" and ?m = "getMonth now"
  have v: "1970 \<le> ?y" "?m \<le> 11" "1 \<le> getDate now" "0 \<le> msOfDay now"
    using assms(1) by (simp_all add: valid_date_def)
  have m: "0 \<le> ?m" "?m \<le> 12" using assms(2) v(2) by simp_all
  have ms: "31 \<le> monthStart (InLeapYear ?y) ?m"
    by (rule monthStart_ge_31 [OF assms(2) v(2) InLeapYear_cases])
  have "(DayFromYear ?y + d - 1) * msPerDay
      \<le> (DayFromYear ?y + monthStart (InLeapYear ?y) ?m + getDate now - 1) * msPerDay"
    using ms assms(3) v(3) by (simp add: msPerDay_def)
  also have "\<dots> \<le> getTime now"
    using v(4) m by (simp add: getTime_def MakeDay_upto_12)
  finally show "new_Date ?y 0 d \<le> getTime now"
    using v(1) by (simp add: new_Date_clock_year MakeDay_upto_12 monthStart_def)
  have "31 \<le> monthStart (InLeapYear (?y + 1)) ?m"
    by (rule monthStart_ge_31 [OF assms(2) v(2) InLeapYear_cases])
  then show "new_Date (?y + 1) 0 d < new_Date (?y + 1) ?m d"
    using v(1) m by (simp add: new_Date_clock_year MakeDay_upto_12 monthStart_def msPerDay_def)
qed

lemma income_yearly_outside_january:
  assumes "valid_date now" "1 \<le> getMonth now" "income_cycleDate inc \<le> 31"
    and "income_cycleType inc = Yearly"
  shows "income_nextDate inc now = new_Date (getFullYear now + 1) 0 (income_cycleDate inc)"
    and "income_nextDate inc now
           < new_Date (getFullYear now + 1) (getMonth now) (income_cycleDate inc)"
  using yearly_outside_january [OF assms(1,2,3)] assms(4)
  by (simp_all add: income_nextDate_def Let_def)

text \<open>
  C8: the yearly case at its failing input. The clock reads 15 June 2024, 09:00, and the
  yearly source has cycle day 15, so this year's 15 June has passed. The method stores
  15 January 2025, which is earlier than 15 June 2025, the same day one year later. The
  income and the expense method agree.
\<close>

theorem yearly_next_date_is_january:
  "new_Date 2024 5 15 \<le> getTime ex_june15
   \<and> income_nextDate ex_dividend ex_june15 = new_Date 2025 0 15
   \<and> expense_nextDate ex_insurance ex_june15 = Some (new_Date 2025 0 15)
   \<and> new_Date 2025 0 15 < new_Date 2025 5 15"
  by (simp add: income_nextDate_def expense_nextDate_def ex_dividend_def ex_insurance_def
      ex_june15_def new_Date_def MakeDay_def getTime_def DayFromYear_def InLeapYear_def
      DaysInYear_def monthStart_def msPerDay_def)

section \<open>Strings and titles\<close>


















section \<open>Source processor\<close>


lemma Transaction_create_cases:
  "Transaction_create td now s = Inl ValidationError \<or>
   Transaction_create td now s =
     Inr (Transaction_doc td (nextId s) now,
          s\<lparr>transactions := transactions s @ [Transaction_doc td (nextId s) now],
            nextId := nextId s + 1\<rparr>)"
  by (simp add: Transaction_create_def Let_def)






lemma processExpenseSource_insufficient:
  assumes "pe_walletId p = Some wid" "wallets s wid = Some w"
    and "currentAmount w < expense_amount (pe_doc p)"
  shows "processExpenseSource p now s = (Inr None, s)"
  using assms by (simp add: processExpenseSource_def Let_def)






lemma formatDate_ex_now: "formatDate ex_now = ''January 5, 2024''"
  by (simp add: formatDate_def ex_now_def monthNames_def show_nat.simps)

lemma due_ex_now:
  "shouldProcessIncome ex_salary (setHours0 ex_now)"
  "shouldProcessExpense ex_subscription (setHours0 ex_now)"
  "shouldProcessExpense ex_rent (setHours0 ex_now)"
  by (simp_all add: shouldProcessIncome_def shouldProcessExpense_def setHours0_def ex_now_def
      ex_salary_def ex_subscription_def ex_rent_def)




text \<open>
  C3: one step of the batch loop on a due fixed expense whose wallet holds strictly less
  than the amount. The database after the step is the database before it, so no
  transaction is created, the balance is unchanged and the stored relaxation date is
  unchanged; the step counts the source under insufficient funds and leaves the
  processed count as it was. Since nothing changed, the source is due again at the
  next run.
\<close>

theorem insufficient_funds_not_processed:
  assumes "q = populate_expense s0 ex" "expense_walletId ex \<in> dom (wallets s0)"
    and "shouldProcessExpense ex today" "wallets s (expense_walletId ex) = Some w"
    and "currentAmount w < expense_amount ex"
  shows "expense_loop today now [q] (s, st, outs) =
           (s, st\<lparr>insufficientFundsCount := insufficientFundsCount st + 1\<rparr>,
            outs @ [InsufficientFunds])
       \<and> processedCount (st\<lparr>insufficientFundsCount := insufficientFundsCount st + 1\<rparr>)
           = processedCount st"
proof -
  have q: "pe_doc q = ex" "pe_walletId q = Some (expense_walletId ex)"
    using assms(1,2) by (simp_all add: populate_expense_def)
  have "processExpenseSource q now s = (Inr None, s)"
    using q assms(4,5) by (intro processExpenseSource_insufficient) simp_all
  then show ?thesis using assms(3) q(1) by simp
qed

theorem insufficient_funds_not_processed_witness:
  "expense_loop (setHours0 ex_now) ex_now [populate_expense ex_db ex_rent] (ex_db, no_stats, []) =
     (ex_db, no_stats\<lparr>insufficientFundsCount := 1\<rparr>, [InsufficientFunds])"
proof -
  have w: "wallets ex_db = [7 \<mapsto> ex_wallet]" by (simp add: ex_db_def)
  have f: "expense_walletId ex_rent = 7" "expense_amount ex_rent = 50000"
    "currentAmount ex_wallet = 10000"
    by (simp_all add: ex_rent_def ex_wallet_def)
  from insufficient_funds_not_processed [OF refl _ due_ex_now(3),
      of ex_db ex_db ex_wallet ex_now no_stats "[]"]
  show ?thesis
    by (simp add: w f no_stats_def del: expense_loop.simps)
qed

section \<open>Debits and the balance\<close>

lemma UserWallet_findOne_Some:
  "UserWallet_findOne i u s = Some wd \<Longrightarrow>
   wallets s i = Some (wd_paths wd) \<and> wd_id wd = i \<and> balance wd = Undefined"
  by (auto simp: UserWallet_findOne_def split: option.splits if_splits)

text \<open>The wallets after \<^verbatim>\<open>processExpenseSource\<close>: as before, or the one debit, which the
  balance covered.\<close>

lemma processExpenseSource_wallets:
  "wallets (snd (processExpenseSource p now s)) = wallets s \<or>
   (\<exists>wid w. pe_walletId p = Some wid \<and> wallets s wid = Some w \<and>
       expense_amount (pe_doc p) \<le> currentAmount w \<and>
       wallets (snd (processExpenseSource p now s)) =
         (wallets s)(wid \<mapsto> w\<lparr>currentAmount := currentAmount w - expense_amount (pe_doc p)\<rparr>))"
proof (cases "pe_walletId p")
  case None
  then show ?thesis by (simp add: processExpenseSource_def Let_def)
next
  case (Some wid)
  show ?thesis
  proof (cases "wallets s wid")
    case None
    then show ?thesis using Some by (simp add: processExpenseSource_def Let_def)
  next
    case w: (Some w)
    show ?thesis
    proof (cases "currentAmount w < expense_amount (pe_doc p)")
      case True
      then show ?thesis using Some w by (simp add: processExpenseSource_def Let_def)
    next
      case False
      let ?td = "\<lparr>td_walletId = wid, td_userId = the (pe_userId p),
             td_title = ''Added Expense for '' @ expense_name (pe_doc p) @ '' on '' @ formatDate now,
             td_description = orNull (expense_description (pe_doc p)), td_file = None,
             td_amount = expense_amount (pe_doc p), td_transactionType = ExpenseType,
             td_transactionDate = getTime now\<rparr>"
      from Transaction_create_cases [of ?td now s] show ?thesis
      proof
        assume "Transaction_create ?td now s = Inl ValidationError"
        then show ?thesis
          using Some w False
          by (auto simp: processExpenseSource_def Let_def split: option.splits)
      next
        assume "Transaction_create ?td now s =
          Inr (Transaction_doc ?td (nextId s) now,
               s\<lparr>transactions := transactions s @ [Transaction_doc ?td (nextId s) now],
                 nextId := nextId s + 1\<rparr>)"
        then show ?thesis
          using Some w False
          by (auto simp: processExpenseSource_def Let_def UserWallet_inc_def Expense_save_def
              split: option.splits sum.splits)
      qed
    qed
  qed
qed

lemma Transaction_create_wallets:
  "Transaction_create td now s = Inr (t, s') \<Longrightarrow> wallets s' = wallets s"
  by (auto simp: Transaction_create_def Let_def split: if_splits)

lemma Expense_create_wallets:
  "Expense_create d now s = Inr (e, s') \<Longrightarrow> wallets s' = wallets s"
  by (auto simp: Expense_create_def Let_def split: if_splits)

lemma createTransaction_wallets:
  assumes "tr_transactionType req = ExpenseType"
  shows "wallets (snd (createTransaction uid req now s)) = wallets s \<or>
   (\<exists>w. wallets s (tr_walletId req) = Some w \<and> tr_amount req \<le> currentAmount w \<and>
       wallets (snd (createTransaction uid req now s)) =
         (wallets s)(tr_walletId req \<mapsto> w\<lparr>currentAmount := currentAmount w - tr_amount req\<rparr>))"
  using assms unfolding createTransaction_def Let_def
  by (auto simp: Transaction_findByIdAndDelete_def UserWallet_inc_def
      dest!: Transaction_create_wallets UserWallet_findOne_Some
      split: option.splits sum.splits prod.splits)

text \<open>\<^verbatim>\<open>save\<close> writes back the schema paths as they were read, so the expense route
  never changes a stored wallet.\<close>

lemma UserWallet_save_same:
  assumes "UserWallet_findOne i u s = Some wd" "wallets s' = wallets s"
  shows "wallets (UserWallet_save (wd\<lparr>balance := b\<rparr>) s') = wallets s"
  using UserWallet_findOne_Some [OF assms(1)] assms(2)
  by (auto simp: UserWallet_save_def)

lemma createExpense_wallets: "wallets (snd (createExpense uid req now s)) = wallets s"
  unfolding createExpense_def Let_def
  by (auto simp: Expense_findByIdAndDelete_def UserWallet_save_same
      dest!: Expense_create_wallets Transaction_create_wallets
      split: option.splits sum.splits prod.splits)


lemma nonneg_after_debit:
  assumes "\<forall>i w. m i = Some w \<longrightarrow> 0 \<le> currentAmount w"
    and "m' = m \<or> (\<exists>w. m k = Some w \<and> a \<le> currentAmount w \<and>
           m' = m(k \<mapsto> w\<lparr>currentAmount := currentAmount w - a\<rparr>))"
  shows "\<forall>i w. m' i = Some w \<longrightarrow> 0 \<le> currentAmount w"
proof (intro allI impI)
  fix i w'
  assume i: "m' i = Some w'"
  from assms(2) show "0 \<le> currentAmount w'"
  proof
    assume "m' = m"
    then show ?thesis using assms(1) i by simp
  next
    assume "\<exists>w. m k = Some w \<and> a \<le> currentAmount w \<and>
           m' = m(k \<mapsto> w\<lparr>currentAmount := currentAmount w - a\<rparr>)"
    then obtain w where w: "m k = Some w" "a \<le> currentAmount w"
      "m' = m(k \<mapsto> w\<lparr>currentAmount := currentAmount w - a\<rparr>)" by blast
    show ?thesis
    proof (cases "i = k")
      case True
      then have "w' = w\<lparr>currentAmount := currentAmount w - a\<rparr>" using i w(3) by simp
      then show ?thesis using w(2) by simp
    next
      case False
      then have "m i = Some w'" using i w(3) by simp
      then show ?thesis using assms(1) by blast
    qed
  qed
qed

text \<open>
  C1: the three operations that debit a wallet. After the batch processing of an
  expense and after the manual creation of an expense transaction, the wallets are
  either as before or differ by the one debit of the amount on the one wallet, and
  then that wallet held at least the amount. After the creation of an expense source,
  spontaneous or fixed, the wallets are as before. Hence, if every balance was at
  least 0 before any of the three, every balance is at least 0 after it.
\<close>

theorem debits_keep_balance_nonnegative:
  fixes p :: populated_expense and now :: jsdate and s :: db and uid :: nat
    and req :: transactionRequest and ereq :: expenseRequest
  assumes "tr_transactionType req = ExpenseType"
  defines "s1 \<equiv> snd (processExpenseSource p now s)"
    and "s2 \<equiv> snd (createTransaction uid req now s)"
    and "s3 \<equiv> snd (createExpense uid ereq now s)"
  shows "(wallets s1 = wallets s \<or>
          (\<exists>wid w. pe_walletId p = Some wid \<and> wallets s wid = Some w \<and>
             expense_amount (pe_doc p) \<le> currentAmount w \<and>
             wallets s1 = (wallets s)(wid \<mapsto>
                w\<lparr>currentAmount := currentAmount w - expense_amount (pe_doc p)\<rparr>)))
       \<and> (wallets s2 = wallets s \<or>
          (\<exists>w. wallets s (tr_walletId req) = Some w \<and> tr_amount req \<le> currentAmount w \<and>
             wallets s2 = (wallets s)(tr_walletId req \<mapsto>
                w\<lparr>currentAmount := currentAmount w - tr_amount req\<rparr>)))
       \<and> wallets s3 = wallets s
       \<and> ((\<forall>i w. wallets s i = Some w \<longrightarrow> 0 \<le> currentAmount w) \<longrightarrow>
            (\<forall>i w. wallets s1 i = Some w \<longrightarrow> 0 \<le> currentAmount w) \<and>
            (\<forall>i w. wallets s2 i = Some w \<longrightarrow> 0 \<le> currentAmount w) \<and>
            (\<forall>i w. wallets s3 i = Some w \<longrightarrow> 0 \<le> currentAmount w))"
proof (intro conjI impI)
  show a: "wallets s1 = wallets s \<or>
          (\<exists>wid w. pe_walletId p = Some wid \<and> wallets s wid = Some w \<and>
             expense_amount (pe_doc p) \<le> currentAmount w \<and>
             wallets s1 = (wallets s)(wid \<mapsto>
                w\<lparr>currentAmount := currentAmount w - expense_amount (pe_doc p)\<rparr>))"
    unfolding s1_def by (rule processExpenseSource_wallets)
  show b: "wallets s2 = wallets s \<or>
          (\<exists>w. wallets s (tr_walletId req) = Some w \<and> tr_amount req \<le> currentAmount w \<and>
             wallets s2 = (wallets s)(tr_walletId req \<mapsto>
                w\<lparr>currentAmount := currentAmount w - tr_amount req\<rparr>))"
    unfolding s2_def by (rule createTransaction_wallets [OF assms(1)])
  show c: "wallets s3 = wallets s"
    unfolding s3_def by (rule createExpense_wallets)
  assume nn: "\<forall>i w. wallets s i = Some w \<longrightarrow> 0 \<le> currentAmount w"
  from a obtain wid where "wallets s1 = wallets s \<or>
          (\<exists>w. wallets s wid = Some w \<and> expense_amount (pe_doc p) \<le> currentAmount w \<and>
             wallets s1 = (wallets s)(wid \<mapsto>
                w\<lparr>currentAmount := currentAmount w - expense_amount (pe_doc p)\<rparr>))"
    by blast
  then show "\<forall>i w. wallets s1 i = Some w \<longrightarrow> 0 \<le> currentAmount w"
    by (rule nonneg_after_debit [OF nn])
  show "\<forall>i w. wallets s2 i = Some w \<longrightarrow> 0 \<le> currentAmount w"
    by (rule nonneg_after_debit [OF nn b])
  show "\<forall>i w. wallets s3 i = Some w \<longrightarrow> 0 \<le> currentAmount w"
    using nn c by simp
qed

theorem debits_keep_balance_nonnegative_witness:
  "(\<exists>w. wallets (snd (processExpenseSource (populate_expense ex_db ex_subscription)
                        ex_now ex_db)) 7 = Some w \<and> 0 \<le> currentAmount w)
   \<and> (\<exists>w. wallets (snd (createTransaction 1 ex_payment ex_now ex_db)) 7 = Some w
          \<and> 0 \<le> currentAmount w)
   \<and> wallets (snd (createExpense 1 ex_spontaneous ex_now ex_db)) = [7 \<mapsto> ex_wallet]"
proof -
  let ?s1 = "snd (processExpenseSource (populate_expense ex_db ex_subscription) ex_now ex_db)"
  let ?s2 = "snd (createTransaction 1 ex_payment ex_now ex_db)"
  let ?s3 = "snd (createExpense 1 ex_spontaneous ex_now ex_db)"
  have t: "tr_transactionType ex_payment = ExpenseType" by (simp add: ex_payment_def)
  have w: "wallets ex_db = [7 \<mapsto> ex_wallet]" by (simp add: ex_db_def)
  have nn: "\<forall>i w. wallets ex_db i = Some w \<longrightarrow> 0 \<le> currentAmount w"
    by (simp add: w ex_wallet_def)
  note T = debits_keep_balance_nonnegative [where req = ex_payment
      and p = "populate_expense ex_db ex_subscription" and now = ex_now and s = ex_db
      and uid = 1 and ereq = ex_spontaneous, OF t]
  have n1: "\<forall>i w. wallets ?s1 i = Some w \<longrightarrow> 0 \<le> currentAmount w"
    and n2: "\<forall>i w. wallets ?s2 i = Some w \<longrightarrow> 0 \<le> currentAmount w"
    using T nn by blast+
  have p: "pe_walletId (populate_expense ex_db ex_subscription) = Some 7"
    by (simp add: populate_expense_def w ex_subscription_def)
  have "wallets ?s1 = wallets ex_db \<or>
        (\<exists>w. wallets ?s1 = (wallets ex_db)(7 \<mapsto> w))"
    using T p by auto
  then have e1: "\<exists>w. wallets ?s1 7 = Some w" by (auto simp: w)
  have "wallets ?s2 = wallets ex_db \<or>
        (\<exists>w. wallets ?s2 = (wallets ex_db)(7 \<mapsto> w))"
    using T by (auto simp: ex_payment_def)
  then have e2: "\<exists>w. wallets ?s2 7 = Some w" by (auto simp: w)
  have "wallets ?s3 = [7 \<mapsto> ex_wallet]" using T w by simp
  then show ?thesis using n1 n2 e1 e2 by blast
qed

section \<open>Soft delete of a transaction\<close>

lemma listed_subset: "set (listed u q s) \<subseteq> {t \<in> set (transactions s). \<not> tx_isDeleted t}"
proof -
  have "set (listed u q s)
      \<subseteq> set (sort_key (\<lambda>t. - transactionDate t) (filter (matches u q) (transactions s)))"
    unfolding listed_def by (rule set_take_subset)
  also have "\<dots> = set (filter (matches u q) (transactions s))" by simp
  also have "\<dots> \<subseteq> {t \<in> set (transactions s). \<not> tx_isDeleted t}"
    by (auto simp: matches_def)
  finally show ?thesis .
qed

lemma listTransactions_subset:
  "set (fst (snd (listTransactions u q s))) \<subseteq> set (listed u q s)"
  by (simp add: listTransactions_def split: option.splits)

lemma same_id_same_doc:
  assumes "distinct (map transaction_id ts)" "x \<in> set ts" "y \<in> set ts"
    and "transaction_id x = transaction_id y"
  shows "x = y"
proof -
  have inj: "inj_on transaction_id (set ts)" using assms(1) by (simp add: distinct_map)
  show ?thesis by (rule inj_onD [OF inj assms(4) assms(2) assms(3)])
qed

text \<open>
  C10, as stated, at a stored transaction: the document was last updated on 5 January
  2024; deleting it on 15 June 2024 also rewrites its \<open>updatedAt\<close>, a third field.
\<close>

theorem softDelete_rewrites_updatedAt:
  "map tx_updatedAt (transactions ex_ledger) = [1704445200000]
   \<and> map tx_updatedAt (transactions (snd (deleteTransaction 1 50 ex_june15 ex_ledger))) =
       [getTime ex_june15]
   \<and> 1704445200000 < getTime ex_june15"
  by (simp add: deleteTransaction_def Transaction_findOne_def softDelete_def
      Transaction_save_def ex_ledger_def ex_tx_def)
     (simp add: ex_june15_def getTime_def MakeDay_def DayFromYear_def InLeapYear_def
      DaysInYear_def monthStart_def msPerDay_def)

text \<open>
  C10, amended: deleting a stored, not yet deleted transaction of the user (ids are
  unique). The handler answers 200; in the database after it the wallets, and every
  collection but the transactions, are as before; the transactions are the same list,
  in which the deleted one has \<open>isDeleted\<close> set, \<open>deletedAt\<close> and the schema's timestamp
  \<open>updatedAt\<close> set to the clock reading and is otherwise as before, and every other
  one is as before. No listing and no summary of any user and any filter then contains
  a transaction of that id, and reading it by id answers 404.
\<close>

theorem softDelete_changes_flags_and_updatedAt:
  assumes "distinct (map transaction_id (transactions s))"
    and "Transaction_findOne i uid s = Some t"
  shows "\<exists>s'. deleteTransaction uid i now s =
              (\<lparr>status = 200, message = ''Transaction deleted successfully''\<rparr>, s')
          \<and> wallets s' = wallets s \<and> users s' = users s \<and> incomes s' = incomes s
          \<and> expenses s' = expenses s \<and> nextId s' = nextId s
          \<and> transactions s' =
               map (\<lambda>d. if transaction_id d = i
                         then d\<lparr>tx_isDeleted := True, tx_deletedAt := Some (getTime now),
                                tx_updatedAt := getTime now\<rparr>
                         else d) (transactions s)
          \<and> (\<forall>u q. i \<notin> transaction_id ` set (listed u q s'))
          \<and> (\<forall>u q. i \<notin> transaction_id ` set (fst (snd (listTransactions u q s'))))
          \<and> getTransaction uid i s' = (\<lparr>status = 404, message = ''Transaction not found''\<rparr>, None)"
proof -
  let ?del = "\<lambda>d. d\<lparr>tx_isDeleted := True, tx_deletedAt := Some (getTime now),
                      tx_updatedAt := getTime now\<rparr>"
  define ts where "ts = map (\<lambda>d. if transaction_id d = i then ?del d else d) (transactions s)"
  define s' where "s' = s\<lparr>transactions := ts\<rparr>"
  have t: "t \<in> set (transactions s)" "transaction_id t = i"
    using assms(2) by (auto simp: Transaction_findOne_def find_Some_iff)
  have same: "d = t" if "d \<in> set (transactions s)" "transaction_id d = i" for d
    using same_id_same_doc [OF assms(1) that(1) t(1)] that(2) t(2) by simp
  have eq: "(if transaction_id d = i then ?del t else d)
      = (if transaction_id d = i then ?del d else d)" if "d \<in> set (transactions s)" for d
  proof (cases "transaction_id d = i")
    case True
    then have "d = t" using same that by simp
    then show ?thesis by simp
  next
    case False
    then show ?thesis by simp
  qed
  have "map (\<lambda>d. if transaction_id d = i then ?del t else d) (transactions s) = ts"
    unfolding ts_def
  proof (rule map_cong [OF refl])
    fix d assume "d \<in> set (transactions s)"
    then show "(if transaction_id d = i then ?del t else d)
      = (if transaction_id d = i then ?del d else d)" by (rule eq)
  qed
  then have del: "deleteTransaction uid i now s =
      (\<lparr>status = 200, message = ''Transaction deleted successfully''\<rparr>, s')"
    using assms(2) t(2)
    by (simp add: deleteTransaction_def softDelete_def Transaction_save_def s'_def)
  have frame: "wallets s' = wallets s" "users s' = users s" "incomes s' = incomes s"
    "expenses s' = expenses s" "nextId s' = nextId s" "transactions s' = ts"
    by (simp_all add: s'_def)
  have gone: "tx_isDeleted d" if "d \<in> set ts" "transaction_id d = i" for d
  proof -
    from that(1) have "d \<in> (\<lambda>d. if transaction_id d = i then ?del d else d) ` set (transactions s)"
      by (simp add: ts_def)
    then obtain d0 where d0: "d = (if transaction_id d0 = i then ?del d0 else d0)"
      by (rule imageE)
    show ?thesis
    proof (cases "transaction_id d0 = i")
      case True
      then show ?thesis using d0 by simp
    next
      case False
      then show ?thesis using d0 that(2) by simp
    qed
  qed
  have l: "i \<notin> transaction_id ` set (listed u q s')" for u q
  proof
    assume "i \<in> transaction_id ` set (listed u q s')"
    then obtain d where d: "d \<in> set (listed u q s')" "transaction_id d = i" by auto
    then have "d \<in> set ts" "\<not> tx_isDeleted d"
      using listed_subset [of u q s'] frame(6) by auto
    then show False using gone d(2) by blast
  qed
  have l': "i \<notin> transaction_id ` set (fst (snd (listTransactions u q s')))" for u q
    using l [of u q] listTransactions_subset [of u q s'] by blast
  have "\<not> (\<exists>x. x \<in> set ts \<and> transaction_id x = i \<and> tx_userId x = uid \<and> \<not> tx_isDeleted x)"
    using gone by blast
  then have g: "Transaction_findOne i uid s' = None"
    by (simp add: Transaction_findOne_def find_None_iff frame(6))
  have g': "getTransaction uid i s' =
      (\<lparr>status = 404, message = ''Transaction not found''\<rparr>, None)"
    by (simp add: getTransaction_def g)
  show ?thesis
    using del frame l l' g' unfolding ts_def by blast
qed

theorem softDelete_changes_flags_and_updatedAt_witness:
  "\<exists>s'. deleteTransaction 1 50 ex_now ex_ledger =
            (\<lparr>status = 200, message = ''Transaction deleted successfully''\<rparr>, s')
        \<and> wallets s' = [7 \<mapsto> ex_wallet]
        \<and> transactions s' = [ex_tx\<lparr>tx_isDeleted := True, tx_deletedAt := Some (getTime ex_now),
                                   tx_updatedAt := getTime ex_now\<rparr>]
        \<and> 50 \<notin> transaction_id ` set (listed 1 ex_query s')
        \<and> getTransaction 1 50 s' = (\<lparr>status = 404, message = ''Transaction not found''\<rparr>, None)"
proof -
  have d: "distinct (map transaction_id (transactions ex_ledger))"
    by (simp add: ex_ledger_def)
  have f: "Transaction_findOne 50 1 ex_ledger = Some ex_tx"
    by (simp add: Transaction_findOne_def ex_ledger_def ex_tx_def)
  have w: "wallets ex_ledger = [7 \<mapsto> ex_wallet]" "transactions ex_ledger = [ex_tx]"
    "transaction_id ex_tx = 50"
    by (simp_all add: ex_ledger_def ex_db_def ex_tx_def)
  from softDelete_changes_flags_and_updatedAt [OF d f, of ex_now]
  obtain s' where s': "deleteTransaction 1 50 ex_now ex_ledger =
            (\<lparr>status = 200, message = ''Transaction deleted successfully''\<rparr>, s')"
      "wallets s' = wallets ex_ledger"
      "transactions s' =
         map (\<lambda>d. if transaction_id d = 50
                   then d\<lparr>tx_isDeleted := True, tx_deletedAt := Some (getTime ex_now),
                          tx_updatedAt := getTime ex_now\<rparr>
                   else d) (transactions ex_ledger)"
      "\<forall>u q. 50 \<notin> transaction_id ` set (listed u q s')"
      "getTransaction 1 50 s' = (\<lparr>status = 404, message = ''Transaction not found''\<rparr>, None)"
    by blast
  show ?thesis
    using s' by (intro exI [of _ s']) (simp add: w)
qed

section \<open>Batch driver\<close>












section \<open>Spontaneous sources\<close>

text \<open>The expense route never answers that the balance is insufficient: the property it
  compares with the amount is \<^verbatim>\<open>undefined\<close>.\<close>

lemma createExpense_never_insufficient:
  "fst (createExpense uid req now s) \<noteq> \<lparr>status = 400, message = ''Insufficient wallet balance''\<rparr>"
proof (cases "UserWallet_findOne (er_walletId req) uid s")
  case None
  then show ?thesis by (simp add: createExpense_def Let_def)
next
  case (Some wd)
  then have "balance wd = Undefined"
    by (rule UserWallet_findOne_Some [THEN conjunct2, THEN conjunct2])
  then show ?thesis
    using Some by (simp add: createExpense_def Let_def split: sum.splits prod.splits)
qed

text \<open>The income route answers 500 to every spontaneous request that reaches the model:
  the schema requires the cycle, which the handler leaves out.\<close>

lemma spontaneous_income_rejected:
  assumes "ir_isFixedIncome req = Some False" "incomeRequest_ok req"
    and "UserWallet_findOne (ir_walletId req) uid s = Some wd"
  shows "createIncome uid req now s =
           (\<lparr>status = 500, message = ''Failed to create income source''\<rparr>, s)"
  using assms by (simp add: createIncome_def Let_def Income_create_def)

lemmas handler_eval =
  Let_def trim_def isSpace_def UserWallet_findOne_def ex_db_def ex_wallet_def
  Transaction_create_def Transaction_doc_def Transaction_validate_def file_validator_def
  orNull_def UserWallet_save_def

text \<open>
  C4: the spontaneous expense route at its failing input. The wallet holds 10000 and the
  request asks for a spontaneous expense of 50000. The handler answers 201, the expense
  source is stored, a transaction of 50000 is stored, and the wallet is as before.
\<close>

theorem spontaneous_overdraft_is_accepted:
  "currentAmount ex_wallet < er_amount ex_overdraft
   \<and> fst (createExpense 1 ex_overdraft ex_now ex_db) =
       \<lparr>status = 201, message = ''Expense source created successfully''\<rparr>
   \<and> map expense_name (expenses (snd (createExpense 1 ex_overdraft ex_now ex_db))) =
       map expense_name (expenses ex_db) @ [''Car'']
   \<and> map tx_amount (transactions (snd (createExpense 1 ex_overdraft ex_now ex_db))) = [50000]
   \<and> wallets (snd (createExpense 1 ex_overdraft ex_now ex_db)) = [7 \<mapsto> ex_wallet]"
  by (simp add: createExpense_def expenseRequest_ok_def Expense_create_def ex_overdraft_def
      handler_eval)


text \<open>
  C6: the spontaneous expense route at a request that the wallet covers (500 of 10000).
  The handler answers 201 and stores one transaction titled \<^verbatim>\<open>Expense: Taxi\<close>, dated at
  the entry date (here the clock reading) and of amount 500, but the wallet is as before:
  its balance is still 10000. The spontaneous income route answers 500 for every
  spontaneous request, because the income schema requires the cycle, and stores nothing.
\<close>

theorem spontaneous_source_leaves_balance:
  "fst (createExpense 1 ex_spontaneous ex_now ex_db) =
       \<lparr>status = 201, message = ''Expense source created successfully''\<rparr>
   \<and> map tx_title (transactions (snd (createExpense 1 ex_spontaneous ex_now ex_db))) =
       [''Expense: Taxi'']
   \<and> map transactionDate (transactions (snd (createExpense 1 ex_spontaneous ex_now ex_db))) =
       [getTime ex_now]
   \<and> map expense_entryDate (expenses (snd (createExpense 1 ex_spontaneous ex_now ex_db))) =
       map expense_entryDate (expenses ex_db) @ [Some (getTime ex_now)]
   \<and> map tx_amount (transactions (snd (createExpense 1 ex_spontaneous ex_now ex_db))) = [500]
   \<and> wallets (snd (createExpense 1 ex_spontaneous ex_now ex_db)) = [7 \<mapsto> ex_wallet]
   \<and> currentAmount ex_wallet = 10000
   \<and> createIncome 1 ex_gift ex_now ex_db =
       (\<lparr>status = 500, message = ''Failed to create income source''\<rparr>, ex_db)"
  by (simp add: createExpense_def expenseRequest_ok_def Expense_create_def ex_spontaneous_def
      createIncome_def incomeRequest_ok_def Income_create_def ex_gift_def handler_eval)


section \<open>Running the batch twice\<close>

lemma getTime_setHours0: "0 \<le> msOfDay now \<Longrightarrow> getTime (setHours0 now) \<le> getTime now"
  by (simp add: getTime_def setHours0_def)

text \<open>A yearly source that has been processed is not due again on the same day.\<close>

lemma yearly_not_due_after_processing:
  assumes "valid_date now" "1 \<le> income_cycleDate inc" "income_cycleType inc = Yearly"
  shows "\<not> shouldProcessIncome (income_updateRelaxationDate inc now) (setHours0 now)"
proof -
  have "getTime (setHours0 now) \<le> getTime now"
    using assms(1) by (intro getTime_setHours0) (simp add: valid_date_def)
  then have "getTime (setHours0 now) < income_nextDate inc now"
    using income_nextDate_future [OF assms(1,2)] by linarith
  then show ?thesis
    using assms(3) by (simp add: shouldProcessIncome_def income_updateRelaxationDate_def)
qed

text \<open>For a monthly or quarterly source the due check does not read the relaxation date.\<close>

lemma monthly_due_ignores_relaxationDate:
  "income_cycleType inc \<noteq> Yearly \<Longrightarrow>
   shouldProcessIncome (inc\<lparr>income_relaxationDate := r\<rparr>) today = shouldProcessIncome inc today"
  by (simp add: shouldProcessIncome_def)

lemma ex_now_fields: "getFullYear ex_now = 2024" "getMonth ex_now = 0" "getDate ex_now = 5"
  by (simp_all add: ex_now_def)

lemmas cron_eval =
  checkIncomeSources_def find_incomes_def populate_income_def processIncomeSource_def
  formatDate_ex_now Income_save_def UserWallet_inc_def income_updateRelaxationDate_def
  shouldProcessIncome_def setHours0_def Let_def trim_def isSpace_def ex_db_def ex_wallet_def
  Transaction_create_def Transaction_doc_def Transaction_validate_def file_validator_def
  orNull_def ex_salary_def no_stats_def

lemma first_run:
  "checkIncomeSources ex_now ex_db =
     (ex_db\<lparr>wallets := [7 \<mapsto> ex_wallet\<lparr>currentAmount := 13000\<rparr>],
        transactions := [Transaction_doc
            \<lparr>td_walletId = 7, td_userId = 1,
             td_title = ''Added Income for Salary on January 5, 2024'',
             td_description = None, td_file = None,
             td_amount = 3000, td_transactionType = IncomeType,
             td_transactionDate = getTime ex_now\<rparr> 100 ex_now],
        incomes := [ex_salary\<lparr>income_relaxationDate := Some (income_nextDate ex_salary ex_now)\<rparr>],
        nextId := 101\<rparr>,
      no_stats\<lparr>processedCount := 1\<rparr>, [Processed])"
  by (simp add: cron_eval ex_now_fields)

text \<open>
  C5: the batch at its failing input. The monthly salary of 3000 is due on 5 January
  2024 and the wallet holds 10000. The first run processes it; a second run on the same
  day processes it again: two transactions of 3000 and a balance of 16000.
\<close>

theorem second_run_processes_monthly_again:
  "snd (snd (checkIncomeSources ex_now ex_db)) = [Processed]
   \<and> snd (snd (checkIncomeSources ex_now (fst (checkIncomeSources ex_now ex_db)))) = [Processed]
   \<and> map tx_amount (transactions
         (fst (checkIncomeSources ex_now (fst (checkIncomeSources ex_now ex_db))))) = [3000, 3000]
   \<and> wallets (fst (checkIncomeSources ex_now (fst (checkIncomeSources ex_now ex_db)))) =
       [7 \<mapsto> ex_wallet\<lparr>currentAmount := 16000\<rparr>]"
  unfolding first_run
  by (simp add: cron_eval ex_now_fields)


end
